theory Spec2Isabelle
  imports Main "HOL-Library.Sublist"
begin

section \<open>Go values\<close>

text \<open>
  A Go \<^verbatim>\<open>string\<close> or \<^verbatim>\<open>[]byte\<close> is a list of bytes (\<^typ>\<open>char\<close> is 8 bits wide).
  A Go \<^verbatim>\<open>error\<close> is represented by its message, the result of \<^verbatim>\<open>Error()\<close>;
  \<^verbatim>\<open>fmt.Errorf("...: %w", err)\<close> therefore becomes concatenation with the message
  of the wrapped error.  A function returning \<^verbatim>\<open>error\<close> returns \<open>error option\<close>
  (\<open>None\<close> for \<^verbatim>\<open>nil\<close>), one returning \<^verbatim>\<open>(T, error)\<close> returns \<open>error + T\<close>.
\<close>

type_synonym error = string

abbreviation nl :: char where
  "nl \<equiv> CHR 0x0A"

section \<open>Package strings\<close>

text \<open>\<^verbatim>\<open>strings.Index(s, substr)\<close>: the index of the first instance of \<open>substr\<close>, or \<open>-1\<close>.\<close>

fun Index :: "string \<Rightarrow> string \<Rightarrow> int" where
  "Index [] substr = (if substr = [] then 0 else - 1)"
| "Index (c # cs) substr =
     (if prefix substr (c # cs) then 0
      else (let i = Index cs substr in if i = - 1 then - 1 else i + 1))"

text \<open>\<^verbatim>\<open>strings.Contains(s, substr)\<close> is \<^verbatim>\<open>Index(s, substr) >= 0\<close>.\<close>

definition Contains :: "string \<Rightarrow> string \<Rightarrow> bool" where
  "Contains s substr \<longleftrightarrow> Index s substr \<ge> 0"

text \<open>
  \<^verbatim>\<open>strings.Split(s, sep)\<close> for a separator of one byte, which is how the program
  calls it (\<^verbatim>\<open>"\n"\<close>).  The empty string splits into one empty piece.
\<close>

fun Split :: "string \<Rightarrow> char \<Rightarrow> string list" where
  "Split [] sep = [[]]"
| "Split (c # cs) sep =
     (if c = sep then [] # Split cs sep
      else (case Split cs sep of
              [] \<Rightarrow> [[c]]
            | l # ls \<Rightarrow> (c # l) # ls))"

text \<open>
  \<^verbatim>\<open>strings.SplitN(s, sep, n)\<close> for a non-empty separator and \<open>n \<ge> 0\<close>: at most \<open>n\<close>
  pieces, the last one the unsplit remainder; \<open>n = 0\<close> gives the empty slice.
\<close>

fun SplitN :: "string \<Rightarrow> string \<Rightarrow> nat \<Rightarrow> string list" where
  "SplitN s sep 0 = []"
| "SplitN s sep (Suc n) =
     (if n = 0 then [s]
      else (let m = Index s sep in
            if m < 0 then [s]
            else take (nat m) s # SplitN (drop (nat m + length sep) s) sep n))"

text \<open>\<^verbatim>\<open>strings.TrimPrefix(s, prefix)\<close>.\<close>

definition TrimPrefix :: "string \<Rightarrow> string \<Rightarrow> string" where
  "TrimPrefix s p = (if prefix p s then drop (length p) s else s)"

text \<open>
  \<^verbatim>\<open>strings.TrimSpace\<close> removes leading and trailing white space as defined by Unicode
  (\<^verbatim>\<open>unicode.IsSpace\<close>).  On bytes these are the UTF-8 encodings of U+0009..U+000D,
  U+0020, U+0085, U+00A0, U+1680, U+2000..U+200A, U+2028, U+2029, U+202F, U+205F and
  U+3000.  Every multi-byte encoding begins with a lead byte, so decoding the first rune
  is a prefix test and decoding the last rune is a suffix test.
\<close>

definition spaceRunes :: "string list" where
  "spaceRunes =
     [[CHR 0x09], [CHR 0x0A], [CHR 0x0B], [CHR 0x0C], [CHR 0x0D], [CHR 0x20],
      [CHR 0xC2, CHR 0x85], [CHR 0xC2, CHR 0xA0],
      [CHR 0xE1, CHR 0x9A, CHR 0x80],
      [CHR 0xE2, CHR 0x80, CHR 0x80], [CHR 0xE2, CHR 0x80, CHR 0x81],
      [CHR 0xE2, CHR 0x80, CHR 0x82], [CHR 0xE2, CHR 0x80, CHR 0x83],
      [CHR 0xE2, CHR 0x80, CHR 0x84], [CHR 0xE2, CHR 0x80, CHR 0x85],
      [CHR 0xE2, CHR 0x80, CHR 0x86], [CHR 0xE2, CHR 0x80, CHR 0x87],
      [CHR 0xE2, CHR 0x80, CHR 0x88], [CHR 0xE2, CHR 0x80, CHR 0x89],
      [CHR 0xE2, CHR 0x80, CHR 0x8A],
      [CHR 0xE2, CHR 0x80, CHR 0xA8], [CHR 0xE2, CHR 0x80, CHR 0xA9],
      [CHR 0xE2, CHR 0x80, CHR 0xAF],
      [CHR 0xE2, CHR 0x81, CHR 0x9F],
      [CHR 0xE3, CHR 0x80, CHR 0x80]]"

text \<open>The number of bytes of the first entry of \<open>rs\<close> that \<open>s\<close> begins with; 0 if none.\<close>

definition leading :: "string list \<Rightarrow> string \<Rightarrow> nat" where
  "leading rs s = (case find (\<lambda>r. r \<noteq> [] \<and> prefix r s) rs of None \<Rightarrow> 0 | Some r \<Rightarrow> length r)"

function trimLeading :: "string list \<Rightarrow> string \<Rightarrow> string" where
  "trimLeading rs s = (if leading rs s = 0 then s else trimLeading rs (drop (leading rs s) s))"
  by pat_completeness auto
termination
proof (relation "measure (\<lambda>(rs, s). length s)")
  show "wf (measure (\<lambda>(rs, s). length s))" by simp
next
  fix rs :: "string list" and s :: string
  assume pos: "leading rs s \<noteq> 0"
  have "s \<noteq> []"
  proof
    assume "s = []"
    then have "find (\<lambda>r. r \<noteq> [] \<and> prefix r s) rs = None"
      by (simp add: find_None_iff)
    with pos show False by (simp add: leading_def)
  qed
  with pos show "((rs, drop (leading rs s) s), (rs, s)) \<in> measure (\<lambda>(rs, s). length s)"
    by simp
qed

declare trimLeading.simps [simp del]

definition TrimSpace :: "string \<Rightarrow> string" where
  "TrimSpace s = rev (trimLeading (map rev spaceRunes) (rev (trimLeading spaceRunes s)))"

section \<open>helm.go: the artifact path in the output of helm package\<close>

definition marker :: string where
  "marker = ''saved it to:''"

text \<open>
  The loop of \<^verbatim>\<open>extractPackagePath\<close> over the lines: the first line that contains
  the marker decides.  The inner test \<^verbatim>\<open>idx != -1\<close> can never fail there, and is kept.
\<close>

fun scanLines :: "string list \<Rightarrow> string option" where
  "scanLines [] = None"
| "scanLines (line # lines) =
     (if Contains line marker then
        (let idx = Index line marker in
         if idx \<noteq> - 1 then Some (TrimSpace (drop (nat (idx + int (length marker))) line))
         else scanLines lines)
      else scanLines lines)"

definition extractPackagePath :: "string \<Rightarrow> error + string" where
  "extractPackagePath output =
     (case scanLines (Split output nl) of
        Some path \<Rightarrow> Inr path
      | None \<Rightarrow> Inl (''could not determine package path from output: '' @ output))"


section \<open>Packages unicode and unicode/utf8\<close>

text \<open>
  A rune is a natural number.  \<^verbatim>\<open>unicode.IsLetter\<close>, \<^verbatim>\<open>unicode.IsDigit\<close> and
  \<^verbatim>\<open>strconv.IsPrint\<close> are decided by tables of the Go library; the program only uses
  their answers, which are a parameter here and are asked for runes from U+0080 on.
  For ASCII the answers are written out where they are used.
\<close>

record Unicode =
  IsLetter :: "nat \<Rightarrow> bool"
  IsDigit :: "nat \<Rightarrow> bool"
  IsPrint :: "nat \<Rightarrow> bool"

definition RuneError :: nat where
  "RuneError = 0xFFFD"

text \<open>
  \<^verbatim>\<open>utf8.DecodeRuneInString\<close>: the first rune of \<open>s\<close> and its width in bytes.  A byte
  sequence that is no valid encoding (a stray continuation byte, an overlong form, a
  surrogate, a value beyond U+10FFFF, a truncated sequence) gives \<open>(RuneError, 1)\<close>.
  The masks \<^verbatim>\<open>0x1F\<close>, \<^verbatim>\<open>0x0F\<close>, \<^verbatim>\<open>0x07\<close> and \<^verbatim>\<open>0x3F\<close> are remainders modulo 32, 16, 8
  and 64.
\<close>

definition DecodeRuneInString :: "string \<Rightarrow> nat \<times> nat" where
  "DecodeRuneInString s =
     (case s of
        [] \<Rightarrow> (RuneError, 0)
      | c0 # rest \<Rightarrow>
          (let s0 = (of_char c0 :: nat) in
           if s0 < 0x80 then (s0, 1)
           else if s0 < 0xC2 \<or> 0xF4 < s0 then (RuneError, 1)
           else
             (let sz = (if s0 < 0xE0 then 2 else if s0 < 0xF0 then 3 else (4::nat));
                  lo = (if s0 = 0xE0 then 0xA0 else if s0 = 0xF0 then 0x90 else (0x80::nat));
                  hi = (if s0 = 0xED then 0x9F else if s0 = 0xF4 then 0x8F else (0xBF::nat))
              in if length s < sz then (RuneError, 1)
                 else
                   (let s1 = (of_char (rest ! 0) :: nat) in
                    if s1 < lo \<or> hi < s1 then (RuneError, 1)
                    else if sz \<le> 2 then (s0 mod 32 * 64 + s1 mod 64, 2)
                    else
                      (let s2 = (of_char (rest ! 1) :: nat) in
                       if s2 < 0x80 \<or> 0xBF < s2 then (RuneError, 1)
                       else if sz \<le> 3 then
                         (s0 mod 16 * 4096 + s1 mod 64 * 64 + s2 mod 64, 3)
                       else
                         (let s3 = (of_char (rest ! 2) :: nat) in
                          if s3 < 0x80 \<or> 0xBF < s3 then (RuneError, 1)
                          else (s0 mod 8 * 262144 + s1 mod 64 * 4096 + s2 mod 64 * 64
                                + s3 mod 64, 4)))))))"

text \<open>
  \<^verbatim>\<open>utf8.AppendRune\<close>: the UTF-8 encoding of a rune; a surrogate or a value beyond
  U+10FFFF is encoded as U+FFFD.
\<close>

definition EncodeRune :: "nat \<Rightarrow> string" where
  "EncodeRune r =
     (if r \<le> 0x7F then [char_of r]
      else if r \<le> 0x7FF then [char_of (0xC0 + r div 64), char_of (0x80 + r mod 64)]
      else if 0x10FFFF < r \<or> (0xD800 \<le> r \<and> r \<le> 0xDFFF) then
        [CHR 0xEF, CHR 0xBF, CHR 0xBD]
      else if r \<le> 0xFFFF then
        [char_of (0xE0 + r div 4096), char_of (0x80 + r div 64 mod 64),
         char_of (0x80 + r mod 64)]
      else
        [char_of (0xF0 + r div 262144), char_of (0x80 + r div 4096 mod 64),
         char_of (0x80 + r div 64 mod 64), char_of (0x80 + r mod 64)])"

section \<open>Packages strconv and fmt\<close>

text \<open>\<^verbatim>\<open>%d\<close> of an integer: its decimal digits, with a minus sign if negative.\<close>

fun digits :: "nat \<Rightarrow> string" where
  "digits n =
     (if n < 10 then [''0123456789'' ! n]
      else digits (n div 10) @ [''0123456789'' ! (n mod 10)])"

declare digits.simps [simp del]

definition Itoa :: "int \<Rightarrow> string" where
  "Itoa i = (if i < 0 then CHR ''-'' # digits (nat (- i)) else digits (nat i))"

text \<open>
  \<^verbatim>\<open>%q\<close> of a string is \<^verbatim>\<open>strconv.Quote\<close>.  \<^verbatim>\<open>appendEscapedRune\<close> writes one rune: the
  double quote and the backslash with a backslash before them, a printable rune as its
  UTF-8 encoding, the control characters as \<^verbatim>\<open>\a \b \f \n \r \t \v\<close> or \<^verbatim>\<open>\xNN\<close>, and any
  other rune as \<^verbatim>\<open>\uNNNN\<close> or \<^verbatim>\<open>\UNNNNNNNN\<close>.  Printable ASCII is U+0020..U+007E.
\<close>

definition hexdigit :: "nat \<Rightarrow> char" where
  "hexdigit n = ''0123456789abcdef'' ! (n mod 16)"

definition isPrintRune :: "Unicode \<Rightarrow> nat \<Rightarrow> bool" where
  "isPrintRune u r = (if r < 0x80 then 0x20 \<le> r \<and> r < 0x7F else IsPrint u r)"

definition appendEscapedRune :: "Unicode \<Rightarrow> nat \<Rightarrow> string" where
  "appendEscapedRune u r =
     (if r = 0x22 then [CHR 0x5C, CHR 0x22]
      else if r = 0x5C then [CHR 0x5C, CHR 0x5C]
      else if isPrintRune u r then EncodeRune r
      else if r = 0x07 then [CHR 0x5C, CHR ''a'']
      else if r = 0x08 then [CHR 0x5C, CHR ''b'']
      else if r = 0x0C then [CHR 0x5C, CHR ''f'']
      else if r = 0x0A then [CHR 0x5C, CHR ''n'']
      else if r = 0x0D then [CHR 0x5C, CHR ''r'']
      else if r = 0x09 then [CHR 0x5C, CHR ''t'']
      else if r = 0x0B then [CHR 0x5C, CHR ''v'']
      else if r < 0x20 \<or> r = 0x7F then
        [CHR 0x5C, CHR ''x'', hexdigit (r div 16), hexdigit r]
      else if 0x10FFFF < r \<or> (0xD800 \<le> r \<and> r \<le> 0xDFFF) then
        [CHR 0x5C, CHR ''u'', CHR ''f'', CHR ''f'', CHR ''f'', CHR ''d'']
      else if r < 0x10000 then
        [CHR 0x5C, CHR ''u'', hexdigit (r div 4096), hexdigit (r div 256),
         hexdigit (r div 16), hexdigit r]
      else
        [CHR 0x5C, CHR ''U'', hexdigit (r div 268435456), hexdigit (r div 16777216),
         hexdigit (r div 1048576), hexdigit (r div 65536), hexdigit (r div 4096),
         hexdigit (r div 256), hexdigit (r div 16), hexdigit r])"

text \<open>
  The loop of \<^verbatim>\<open>strconv.Quote\<close>: a byte below \<open>0x80\<close> is a rune of width 1, anything
  else is decoded; a byte that begins no valid encoding is written \<^verbatim>\<open>\xNN\<close>.  The
  width is at least 1, so \<^verbatim>\<open>s[width:]\<close> is \<open>drop (width - 1)\<close> of the tail.
\<close>

fun quoteFrom :: "Unicode \<Rightarrow> string \<Rightarrow> string" where
  "quoteFrom u [] = []"
| "quoteFrom u (c # cs) =
     (let (r, width) = (if (0x80::nat) \<le> of_char c then DecodeRuneInString (c # cs)
                        else (of_char c, 1))
      in (if width = 1 \<and> r = RuneError then
            [CHR 0x5C, CHR ''x'', hexdigit (of_char c div 16), hexdigit (of_char c)]
          else appendEscapedRune u r)
         @ quoteFrom u (drop (width - 1) cs))"

definition Quote :: "Unicode \<Rightarrow> string \<Rightarrow> string" where
  "Quote u s = CHR 0x22 # quoteFrom u s @ [CHR 0x22]"

section \<open>Package regexp, for the patterns of chart.go\<close>

text \<open>
  \<^verbatim>\<open>chart.go\<close> compiles two patterns, \<^verbatim>\<open>(?m)^version:\s*.+$\<close> and
  \<^verbatim>\<open>(?m)^appVersion:\s*.+$\<close>.  \<open>KeyLine key\<close> stands for \<^verbatim>\<open>(?m)^\<close>\<open>key\<close>\<^verbatim>\<open>\s*.+$\<close>.
  Go's matcher is leftmost-first: of the matches that begin at the leftmost position it
  returns the one a backtracking matcher finds first, so a greedy operator takes as much
  as it can and gives back one byte at a time.  In RE2 syntax \<^verbatim>\<open>\s\<close> is
  \<^verbatim>\<open>[\t\n\f\r ]\<close>, which contains the line feed; \<^verbatim>\<open>.\<close> is any character but the
  line feed; with \<^verbatim>\<open>(?m)\<close>, \<^verbatim>\<open>^\<close> holds at the start of the text and after a line
  feed, \<^verbatim>\<open>$\<close> at the end of the text and before a line feed.
\<close>

datatype Regexp = KeyLine string

definition versionPattern :: Regexp where
  "versionPattern = KeyLine ''version:''"

definition appVersionPattern :: Regexp where
  "appVersionPattern = KeyLine ''appVersion:''"

definition isReSpace :: "char \<Rightarrow> bool" where
  "isReSpace c \<longleftrightarrow> c \<in> set [CHR 0x09, CHR 0x0A, CHR 0x0C, CHR 0x0D, CHR 0x20]"

text \<open>
  The length of the match of \<open>key\<close>\<^verbatim>\<open>\s*.+$\<close> at the head of \<open>s\<close>, where \<^verbatim>\<open>^\<close> holds.
  \<^verbatim>\<open>\s*\<close> first takes the whole run \<open>w\<close> of white space, line feeds included.  If a
  byte follows, it is no line feed, \<^verbatim>\<open>.+\<close> runs to the end of that line and \<^verbatim>\<open>$\<close>
  holds.  If the text ends with \<open>w\<close>, \<^verbatim>\<open>\s*\<close> gives bytes back until \<^verbatim>\<open>.+\<close> can take
  one: the last byte of \<open>w\<close> that is no line feed; the match ends there.
\<close>

definition matchAt :: "string \<Rightarrow> string \<Rightarrow> nat option" where
  "matchAt key s =
     (if \<not> prefix key s then None
      else (let rest = drop (length key) s;
                w = takeWhile isReSpace rest;
                r = dropWhile isReSpace rest
            in if r \<noteq> [] then
                 Some (length key + length w + length (takeWhile (\<lambda>c. c \<noteq> nl) r))
               else (let w' = rev (dropWhile (\<lambda>c. c = nl) (rev w))
                     in if w' = [] then None else Some (length key + length w'))))"

text \<open>
  \<^verbatim>\<open>Regexp.Match\<close>: is there a match anywhere in the text.  \<open>bol\<close> says whether \<^verbatim>\<open>^\<close>
  holds at the head of the remaining text.
\<close>

fun matchFrom :: "string \<Rightarrow> bool \<Rightarrow> string \<Rightarrow> bool" where
  "matchFrom key bol [] = False"
| "matchFrom key bol (c # cs) =
     ((bol \<and> matchAt key (c # cs) \<noteq> None) \<or> matchFrom key (c = nl) cs)"

fun Match :: "Regexp \<Rightarrow> string \<Rightarrow> bool" where
  "Match (KeyLine key) b = matchFrom key True b"

text \<open>
  The replacement text of \<^verbatim>\<open>ReplaceAll\<close> is a template (\<^verbatim>\<open>Regexp.Expand\<close>): \<^verbatim>\<open>$$\<close> is a
  dollar sign, \<^verbatim>\<open>$name\<close> and \<^verbatim>\<open>${name}\<close> are the text of a submatch, where the name is
  the longest run of letters, digits and underscores, and a dollar sign followed by
  anything else stands for itself.  The two patterns have no capture group: \<^verbatim>\<open>$0\<close> is
  the whole match and every other name is the empty string.  \<open>nameLen\<close> is the loop of
  \<^verbatim>\<open>extract\<close> over the runes of the name and gives its length in bytes; \<open>extract\<close>
  returns the name and the number of template bytes it used.
\<close>

definition isNameRune :: "Unicode \<Rightarrow> nat \<Rightarrow> bool" where
  "isNameRune u r =
     (if r < 0x80 then
        (0x30 \<le> r \<and> r \<le> 0x39) \<or> (0x41 \<le> r \<and> r \<le> 0x5A) \<or> (0x61 \<le> r \<and> r \<le> 0x7A) \<or> r = 0x5F
      else IsLetter u r \<or> IsDigit u r)"

fun nameLen :: "Unicode \<Rightarrow> string \<Rightarrow> nat" where
  "nameLen u [] = 0"
| "nameLen u (c # cs) =
     (let (r, width) = DecodeRuneInString (c # cs)
      in if isNameRune u r then width + nameLen u (drop (width - 1) cs) else 0)"

definition "extract" :: "Unicode \<Rightarrow> string \<Rightarrow> (string \<times> nat) option" where
  "extract u str =
     (if str = [] then None
      else (let brace = (hd str = CHR ''{'');
                str' = (if brace then tl str else str);
                i = nameLen u str';
                name = take i str'
            in if i = 0 then None
               else if brace then
                 (if i \<ge> length str' \<or> str' ! i \<noteq> CHR ''}'' then None
                  else Some (name, i + 2))
               else Some (name, i)))"

function expand :: "Unicode \<Rightarrow> string \<Rightarrow> string \<Rightarrow> string" where
  "expand u [] m = []"
| "expand u (c # template) m =
     (if c \<noteq> CHR ''$'' then c # expand u template m
      else if template \<noteq> [] \<and> hd template = CHR ''$'' then CHR ''$'' # expand u (tl template) m
      else (case extract u template of
              None \<Rightarrow> CHR ''$'' # expand u template m
            | Some (name, used) \<Rightarrow>
                (if name = ''0'' then m else []) @ expand u (drop used template) m))"
  by pat_completeness auto
termination
  by (relation "measure (\<lambda>(u, t, m). length t)") auto

text \<open>
  \<^verbatim>\<open>Regexp.ReplaceAll\<close>: every match, found from left to right, is replaced by the
  expanded template, and the search goes on behind the match.  A match is not empty and
  its last byte is no line feed, so \<^verbatim>\<open>^\<close> does not hold right behind it.
\<close>

function replaceFrom :: "Unicode \<Rightarrow> string \<Rightarrow> string \<Rightarrow> bool \<Rightarrow> string \<Rightarrow> string" where
  "replaceFrom u key repl bol [] = []"
| "replaceFrom u key repl bol (c # cs) =
     (case (if bol then matchAt key (c # cs) else None) of
        Some n \<Rightarrow> expand u repl (take n (c # cs)) @ replaceFrom u key repl False (drop n (c # cs))
      | None \<Rightarrow> c # replaceFrom u key repl (c = nl) cs)"
  by pat_completeness auto
termination
proof (relation "measure (\<lambda>(u, key, repl, bol, s). length s)")
  show "wf (measure (\<lambda>(u, key, repl, bol, s). length s))" by simp
next
  fix u :: Unicode and key repl :: string and bol :: bool and c :: char and cs :: string
  show "((u, key, repl, c = nl, cs), (u, key, repl, bol, c # cs))
          \<in> measure (\<lambda>(u, key, repl, bol, s). length s)"
    by simp
next
  fix u :: Unicode and key repl :: string and bol :: bool and c :: char and cs :: string and n :: nat
  assume m: "(if bol then matchAt key (c # cs) else None) = Some n"
  have "0 < n"
  proof -
    from m have s: "matchAt key (c # cs) = Some n" by (simp split: if_splits)
    let ?rest = "drop (length key) (c # cs)"
    let ?r = "dropWhile isReSpace ?rest"
    show ?thesis
    proof (cases "?r = []")
      case True
      with s show ?thesis
        by (auto simp: matchAt_def Let_def split: if_splits)
    next
      case False
      then have "\<not> isReSpace (hd ?r)" by (metis hd_dropWhile)
      then have "hd ?r \<noteq> nl" by (auto simp: isReSpace_def)
      with False have "takeWhile (\<lambda>c. c \<noteq> nl) ?r \<noteq> []" by (cases ?r) auto
      with s False show ?thesis
        by (auto simp: matchAt_def Let_def split: if_splits)
    qed
  qed
  then show "((u, key, repl, False, drop n (c # cs)), (u, key, repl, bol, c # cs))
          \<in> measure (\<lambda>(u, key, repl, bol, s). length s)"
    by simp
qed

fun ReplaceAll :: "Unicode \<Rightarrow> Regexp \<Rightarrow> string \<Rightarrow> string \<Rightarrow> string" where
  "ReplaceAll u (KeyLine key) src repl = replaceFrom u key repl True src"

section \<open>The outside world\<close>

text \<open>
  Commands, HTTP requests and files are handled by the operating system and by library
  code.  Each function of the program returns, next to its result, the list of the
  actions it performed, in order.  What the outside world answers is given by an
  environment \<open>env\<close> of arbitrary functions; no function of the program issues the same
  request twice, so a function of the request loses no behaviour.  A cancelled context
  shows as an error answer.  The permission bits given to \<^verbatim>\<open>os.WriteFile\<close> and
  \<^verbatim>\<open>os.MkdirAll\<close> are constants of the program and are not recorded.
\<close>

datatype sink = Unset | OsStdout | OsStderr | Discard | Captured

text \<open>\<^verbatim>\<open>exec.Cmd\<close>: \<open>Args\<close> is the argument vector, the program name first.\<close>

record Cmd =
  Args :: "string list"
  Stdin :: "string option"
  Stdout :: sink
  Stderr :: sink

text \<open>
  \<^verbatim>\<open>http.Request\<close>: \<open>Body\<close> is the path of the open file that is streamed,
  \<open>BasicAuth\<close> the user name and password given to \<^verbatim>\<open>SetBasicAuth\<close>.
\<close>

record Request =
  Method :: string
  URL :: string
  Body :: string
  Header :: "(string \<times> string) list"
  ContentLength :: int
  BasicAuth :: "(string \<times> string) option"

text \<open>\<^verbatim>\<open>http.Response\<close>: \<open>Body\<close> is what \<^verbatim>\<open>io.ReadAll(resp.Body)\<close> returns.\<close>

record Response =
  StatusCode :: int
  Body :: string

datatype logval = LStr string | LBool bool

datatype event =
    EvReadFile string
  | EvWriteFile string string
  | EvMkdirAll string
  | EvOpen string
  | EvStat string
  | EvRun Cmd
  | EvDo nat Request
  | EvLog string "(string \<times> logval) list"

text \<open>\<open>EvDo secs req\<close>: \<open>req\<close> sent by a client whose timeout is \<open>secs\<close> seconds.\<close>

fun isSubprocess :: "event \<Rightarrow> bool" where
  "isSubprocess (EvRun cmd) = True"
| "isSubprocess ev = False"

fun isNetwork :: "event \<Rightarrow> bool" where
  "isNetwork (EvDo secs req) = True"
| "isNetwork ev = False"

section \<open>chart.go: the manifest\<close>

record ChartDependency =
  Name :: string
  Version :: string
  Repository :: string
  Condition :: string
  Tags :: "string list"
  Alias :: string

record Maintainer =
  Name :: string
  Email :: string
  URL :: string

record Chart =
  APIVersion :: string
  Name :: string
  Version :: string
  AppVersion :: string
  Description :: string
  Type :: string
  Keywords :: "string list"
  Home :: string
  Sources :: "string list"
  Dependencies :: "ChartDependency list"
  Maintainers :: "Maintainer list"
  Icon :: string
  Deprecated :: bool
  KubeVersion :: string

text \<open>
  The answers of the outside world.  \<open>unicode\<close> holds the tables of the library;
  \<open>filepath_Join\<close> and \<open>yaml_Unmarshal\<close> are library
  functions whose results the program only passes on; \<open>cmd_Run\<close> gives the combined
  output and the error of running a command; \<open>file_Stat\<close> the size of an open file.
\<close>

record env =
  unicode :: Unicode
  filepath_Join :: "string \<Rightarrow> string \<Rightarrow> string"
  os_ReadFile :: "string \<Rightarrow> error + string"
  os_WriteFile :: "string \<Rightarrow> string \<Rightarrow> error option"
  os_MkdirAll :: "string \<Rightarrow> error option"
  os_Open :: "string \<Rightarrow> error option"
  file_Stat :: "string \<Rightarrow> error + int"
  yaml_Unmarshal :: "string \<Rightarrow> error + Chart"
  cmd_Run :: "Cmd \<Rightarrow> string \<times> error option"
  http_NewRequest :: "string \<Rightarrow> string \<Rightarrow> error option"
  client_Do :: "nat \<Rightarrow> Request \<Rightarrow> error + Response"

definition ParseChart :: "env \<Rightarrow> string \<Rightarrow> (error + Chart) \<times> event list" where
  "ParseChart e chartPath =
     (let chartFile = filepath_Join e chartPath ''Chart.yaml'' in
      case os_ReadFile e chartFile of
        Inl err \<Rightarrow> (Inl (''failed to read Chart.yaml: '' @ err), [EvReadFile chartFile])
      | Inr data \<Rightarrow>
          (case yaml_Unmarshal e data of
             Inl err \<Rightarrow> (Inl (''failed to parse Chart.yaml: '' @ err), [EvReadFile chartFile])
           | Inr chart \<Rightarrow> (Inr chart, [EvReadFile chartFile])))"

text \<open>
  \<^verbatim>\<open>UpdateChartVersion\<close>.  The pattern \<^verbatim>\<open>versionLine\<close> of the last branch is compiled from
  the same text as \<^verbatim>\<open>versionPattern\<close>.
\<close>

definition UpdateChartVersion ::
    "env \<Rightarrow> string \<Rightarrow> string \<Rightarrow> string \<Rightarrow> error option \<times> event list" where
  "UpdateChartVersion e chartPath version appVersion =
     (let chartFile = filepath_Join e chartPath ''Chart.yaml'' in
      case os_ReadFile e chartFile of
        Inl err \<Rightarrow> (Some (''failed to read Chart.yaml: '' @ err), [EvReadFile chartFile])
      | Inr data \<Rightarrow>
          if \<not> Match versionPattern data then
            (Some ''version field not found in Chart.yaml'', [EvReadFile chartFile])
          else
            (let data1 = ReplaceAll (unicode e) versionPattern data (''version: '' @ version);
                 data2 =
                   (if appVersion \<noteq> [] then
                      (if Match appVersionPattern data1 then
                         ReplaceAll (unicode e) appVersionPattern data1
                           (''appVersion: '' @ Quote (unicode e) appVersion)
                       else
                         ReplaceAll (unicode e) versionPattern data1
                           (''version: '' @ version @ [nl] @ ''appVersion: '' @
                            Quote (unicode e) appVersion))
                    else data1)
             in case os_WriteFile e chartFile data2 of
                  Some err \<Rightarrow>
                    (Some (''failed to write Chart.yaml: '' @ err),
                     [EvReadFile chartFile, EvWriteFile chartFile data2])
                | None \<Rightarrow> (None, [EvReadFile chartFile, EvWriteFile chartFile data2])))"

section \<open>helm.go: the command line\<close>

record HelmCLI =
  chartPath :: string

record SignOptions =
  Keyring :: string
  Key :: string
  PassphraseFile :: string

definition NewHelmCLI :: "string \<Rightarrow> HelmCLI" where
  "NewHelmCLI p = \<lparr>chartPath = p\<rparr>"

definition Package ::
    "env \<Rightarrow> HelmCLI \<Rightarrow> string \<Rightarrow> SignOptions option \<Rightarrow> (error + string) \<times> event list" where
  "Package e h outputDir signOpts =
     (let args = [''package'', chartPath h, ''-d'', outputDir] @
                 (case signOpts of
                    None \<Rightarrow> []
                  | Some so \<Rightarrow>
                      [''--sign''] @
                      (if SignOptions.Keyring so \<noteq> [] then [''--keyring'', SignOptions.Keyring so] else []) @
                      (if SignOptions.Key so \<noteq> [] then [''--key'', SignOptions.Key so] else []) @
                      (if SignOptions.PassphraseFile so \<noteq> []
                       then [''--passphrase-file'', SignOptions.PassphraseFile so] else []));
          cmd = \<lparr>Args = ''helm'' # args, Stdin = None, Stdout = Captured, Stderr = Captured\<rparr>
      in case cmd_Run e cmd of
           (output, Some err) \<Rightarrow>
             (Inl (''helm package failed: '' @ err @ [nl] @ output), [EvRun cmd])
         | (output, None) \<Rightarrow> (extractPackagePath output, [EvRun cmd]))"

section \<open>The repository\<close>

text \<open>
  The file defining \<^verbatim>\<open>Repository\<close> and its methods \<^verbatim>\<open>Push\<close>, \<^verbatim>\<open>pushOCI\<close>,
  \<^verbatim>\<open>pushChartMuseum\<close>, \<^verbatim>\<open>pushHTTP\<close> and \<^verbatim>\<open>registryLogin\<close>.  \<^verbatim>\<open>RepositoryConfig\<close> is
  declared in the plugin file.  Closing the package file and the response body is not
  recorded.
\<close>

record RepositoryConfig =
  Type :: string
  URL :: string
  Name :: string
  Username :: string
  Password :: string
  RegistryConfig :: string

record Repository =
  config :: RepositoryConfig
  contextPath :: string

definition NewRepository :: "RepositoryConfig \<Rightarrow> Repository" where
  "NewRepository c = \<lparr>config = c, contextPath = []\<rparr>"

definition SetContextPath :: "Repository \<Rightarrow> string \<Rightarrow> Repository" where
  "SetContextPath r path = r\<lparr>contextPath := path\<rparr>"

definition registryLogin :: "env \<Rightarrow> Repository \<Rightarrow> string \<Rightarrow> error option \<times> event list" where
  "registryLogin e r registry =
     (let cmd = \<lparr>Args = [''helm'', ''registry'', ''login'', registry,
                          ''--username'', Username (config r), ''--password-stdin''],
                  Stdin = Some (Password (config r)), Stdout = Unset, Stderr = OsStderr\<rparr>
      in (snd (cmd_Run e cmd), [EvRun cmd]))"

text \<open>
  \<^verbatim>\<open>pushOCI\<close>.  \<^verbatim>\<open>parts[0]\<close> exists: \<^verbatim>\<open>SplitN\<close> with \<open>n = 2\<close> returns one or two pieces
  (lemma \<open>SplitN_2_first\<close> below).
\<close>

definition pushOCI :: "env \<Rightarrow> Repository \<Rightarrow> string \<Rightarrow> error option \<times> event list" where
  "pushOCI e r packagePath =
     (let (loginErr, t) =
            (if Username (config r) \<noteq> [] \<and> Password (config r) \<noteq> [] then
               (let registry = TrimPrefix (RepositoryConfig.URL (config r)) ''oci://'';
                    parts = SplitN registry ''/'' 2;
                    registryHost = parts ! 0
                in registryLogin e r registryHost)
             else (None, []))
      in case loginErr of
           Some err \<Rightarrow> (Some (''registry login failed: '' @ err), t)
         | None \<Rightarrow>
             (let cmd = \<lparr>Args = [''helm'', ''push'', packagePath, RepositoryConfig.URL (config r)],
                          Stdin = None, Stdout = OsStdout, Stderr = OsStderr\<rparr>
              in case snd (cmd_Run e cmd) of
                   Some err \<Rightarrow> (Some (''helm push failed: '' @ err), t @ [EvRun cmd])
                 | None \<Rightarrow> (None, t @ [EvRun cmd])))"

definition pushChartMuseum :: "env \<Rightarrow> Repository \<Rightarrow> string \<Rightarrow> error option \<times> event list" where
  "pushChartMuseum e r packagePath =
     (case os_Open e packagePath of
        Some err \<Rightarrow> (Some (''failed to open package: '' @ err), [EvOpen packagePath])
      | None \<Rightarrow>
          (let endpoint =
                 (if contextPath r \<noteq> [] then
                    RepositoryConfig.URL (config r) @ ''/'' @ contextPath r @ ''/api/charts''
                  else RepositoryConfig.URL (config r) @ ''/api/charts'')
           in case http_NewRequest e ''POST'' endpoint of
                Some err \<Rightarrow> (Some (''failed to create request: '' @ err), [EvOpen packagePath])
              | None \<Rightarrow>
                  (let req = \<lparr>Method = ''POST'', Request.URL = endpoint, Request.Body = packagePath,
                               Header = [(''Content-Type'', ''application/gzip'')],
                               ContentLength = 0,
                               BasicAuth =
                                 (if Username (config r) \<noteq> [] \<and> Password (config r) \<noteq> []
                                  then Some (Username (config r), Password (config r))
                                  else None)\<rparr>
                   in case client_Do e 60 req of
                        Inl err \<Rightarrow>
                          (Some (''failed to push chart: '' @ err),
                           [EvOpen packagePath, EvDo 60 req])
                      | Inr resp \<Rightarrow>
                          if StatusCode resp \<noteq> 201 \<and> StatusCode resp \<noteq> 200 then
                            (Some (''upload failed with status '' @ Itoa (StatusCode resp) @
                                   '': '' @ Response.Body resp),
                             [EvOpen packagePath, EvDo 60 req])
                          else (None, [EvOpen packagePath, EvDo 60 req]))))"

definition pushHTTP :: "env \<Rightarrow> Repository \<Rightarrow> string \<Rightarrow> error option \<times> event list" where
  "pushHTTP e r packagePath =
     (case os_Open e packagePath of
        Some err \<Rightarrow> (Some (''failed to open package: '' @ err), [EvOpen packagePath])
      | None \<Rightarrow>
          (case file_Stat e packagePath of
             Inl err \<Rightarrow>
               (Some (''failed to stat package: '' @ err), [EvOpen packagePath, EvStat packagePath])
           | Inr fileSize \<Rightarrow>
               (case http_NewRequest e ''PUT'' (RepositoryConfig.URL (config r)) of
                  Some err \<Rightarrow>
                    (Some (''failed to create request: '' @ err),
                     [EvOpen packagePath, EvStat packagePath])
                | None \<Rightarrow>
                    (let req = \<lparr>Method = ''PUT'', Request.URL = RepositoryConfig.URL (config r),
                                 Request.Body = packagePath,
                                 Header = [(''Content-Type'', ''application/gzip'')],
                                 ContentLength = fileSize,
                                 BasicAuth =
                                   (if Username (config r) \<noteq> [] \<and> Password (config r) \<noteq> []
                                    then Some (Username (config r), Password (config r))
                                    else None)\<rparr>
                     in case client_Do e 120 req of
                          Inl err \<Rightarrow>
                            (Some (''failed to push chart: '' @ err),
                             [EvOpen packagePath, EvStat packagePath, EvDo 120 req])
                        | Inr resp \<Rightarrow>
                            if StatusCode resp < 200 \<or> StatusCode resp \<ge> 300 then
                              (Some (''upload failed with status '' @ Itoa (StatusCode resp) @
                                     '': '' @ Response.Body resp),
                               [EvOpen packagePath, EvStat packagePath, EvDo 120 req])
                            else (None, [EvOpen packagePath, EvStat packagePath, EvDo 120 req])))))"

definition Push :: "env \<Rightarrow> Repository \<Rightarrow> string \<Rightarrow> error option \<times> event list" where
  "Push e r packagePath =
     (if Type (config r) = ''oci'' then pushOCI e r packagePath
      else if Type (config r) = ''chartmuseum'' then pushChartMuseum e r packagePath
      else if Type (config r) = ''http'' then pushHTTP e r packagePath
      else (Some (''unsupported repository type: '' @ Type (config r)), []))"

section \<open>The plugin: the post-publish hook\<close>

text \<open>
  The file defining \<^verbatim>\<open>HelmPlugin\<close>: its configuration and \<^verbatim>\<open>executePostPublish\<close>.  The
  hook always returns a \<^verbatim>\<open>nil\<close> error next to its response, so the response alone is
  its result here.
\<close>

record VersionConfig =
  UpdateChart :: bool
  UpdateAppVersion :: bool
  AppVersionFormat :: string

record DependencyConfig =
  Update :: bool
  Build :: bool

record Config =
  ChartPath :: string
  Repository :: RepositoryConfig
  Version :: VersionConfig
  Lint :: bool
  LintStrict :: bool
  TemplateValidate :: bool
  Test :: bool
  KubeVersion :: string
  APIVersions :: "string list"
  Dependencies :: DependencyConfig
  Sign :: bool
  SignKey :: string
  Keyring :: string
  PassphraseFile :: string
  OutputDir :: string
  ContextPath :: string
  DryRun :: bool

text \<open>Of \<^verbatim>\<open>plugin.ReleaseContext\<close> the hook reads the version only.\<close>

record ReleaseContext =
  Version :: string

record ExecuteResponse =
  Success :: bool
  Message :: string

text \<open>
  A \<^verbatim>\<open>slog.Logger\<close> is the list of the attributes given to \<^verbatim>\<open>With\<close>; \<^verbatim>\<open>Info\<close> writes
  the message with these and its own attributes.
\<close>

type_synonym logger = "(string \<times> logval) list"

definition Info :: "logger \<Rightarrow> string \<Rightarrow> (string \<times> logval) list \<Rightarrow> event" where
  "Info l msg attrs = EvLog msg (l @ attrs)"

definition executePostPublish ::
    "env \<Rightarrow> ReleaseContext \<Rightarrow> Config \<Rightarrow> logger \<Rightarrow> ExecuteResponse \<times> event list" where
  "executePostPublish e releaseCtx cfg logger0 =
     (let version = ReleaseContext.Version releaseCtx;
          logger1 = logger0 @ [(''version'', LStr version)];
          chartPath = (if ChartPath cfg = [] then ''.'' else ChartPath cfg);
          (parsed, t1) = ParseChart e chartPath
      in case parsed of
           Inl err \<Rightarrow>
             (\<lparr>Success = False, Message = ''Failed to parse Chart.yaml: '' @ err\<rparr>, t1)
         | Inr chart \<Rightarrow>
             (let logger = logger1 @ [(''chart'', LStr (Chart.Name chart))];
                  helm = NewHelmCLI chartPath;
                  outputDir = (if OutputDir cfg = [] then ''.helm-packages'' else OutputDir cfg);
                  (mkdirErr, t2) =
                    (if \<not> DryRun cfg then (os_MkdirAll e outputDir, t1 @ [EvMkdirAll outputDir])
                     else (None, t1))
              in case mkdirErr of
                   Some err \<Rightarrow>
                     (\<lparr>Success = False,
                       Message = ''Failed to create output directory: '' @ err\<rparr>, t2)
                 | None \<Rightarrow>
                     (let t3 = t2 @ [Info logger ''Packaging chart'' [(''outputDir'', LStr outputDir)]];
                          (packaged, t4) =
                            (if DryRun cfg then
                               (Inr (filepath_Join e outputDir
                                       (Chart.Name chart @ ''-'' @ version @ ''.tgz'')),
                                t3 @ [Info logger ''[DRY-RUN] Would package chart''
                                        [(''sign'', LBool (Sign cfg)),
                                         (''outputDir'', LStr outputDir)]])
                             else
                               (let signOpts =
                                      (if Sign cfg then
                                         Some \<lparr>SignOptions.Keyring = Config.Keyring cfg,
                                               Key = SignKey cfg,
                                               SignOptions.PassphraseFile = Config.PassphraseFile cfg\<rparr>
                                       else None);
                                    (res, tp) = Package e helm outputDir signOpts
                                in (res, t3 @ tp)))
                      in case packaged of
                           Inl err \<Rightarrow>
                             (\<lparr>Success = False,
                               Message = ''Failed to package chart: '' @ err\<rparr>, t4)
                         | Inr packagePath \<Rightarrow>
                             (let t5 = t4 @ [Info logger ''Pushing chart to repository''
                                               [(''type'', LStr (Type (Repository cfg))),
                                                (''url'', LStr (RepositoryConfig.URL (Repository cfg)))]];
                                  repo = SetContextPath (NewRepository (Repository cfg))
                                           (ContextPath cfg);
                                  (pushErr, t6) =
                                    (if DryRun cfg then
                                       (None,
                                        t5 @ [Info logger ''[DRY-RUN] Would push chart''
                                                [(''package'', LStr packagePath),
                                                 (''repository'',
                                                  LStr (RepositoryConfig.URL (Repository cfg)))]])
                                     else
                                       (let (res, tp) = Push e repo packagePath
                                        in (res, t5 @ tp)))
                              in case pushErr of
                                   Some err \<Rightarrow>
                                     (\<lparr>Success = False,
                                       Message = ''Failed to push chart: '' @ err\<rparr>, t6)
                                 | None \<Rightarrow>
                                     (let msg =
                                            (if DryRun cfg then
                                               ''[DRY-RUN] Would publish '' @ Chart.Name chart @
                                               ''@'' @ version @ '' to '' @
                                               RepositoryConfig.URL (Repository cfg)
                                             else
                                               ''Published '' @ Chart.Name chart @
                                               ''@'' @ version @ '' to '' @
                                               RepositoryConfig.URL (Repository cfg))
                                      in (\<lparr>Success = True, Message = msg\<rparr>,
                                          t6 @ [Info logger ''PostPublish completed successfully''
                                                  []]))))))"

section \<open>The commands of a registry push, as the specification describes them\<close>

text \<open>
  These two definitions are not taken from the program.  They write down what the
  specification says \<^verbatim>\<open>pushOCI\<close> runs, and the theorems compare them with what it
  does run: a login at the registry host, which is the target address without the
  \<^verbatim>\<open>oci://\<close> prefix up to the first \<^verbatim>\<open>/\<close>, with the password on standard input;
  and the push of the package to the full address.
\<close>

definition specLoginCmd :: "Repository \<Rightarrow> Cmd" where
  "specLoginCmd r =
     \<lparr>Args = [''helm'', ''registry'', ''login'',
              takeWhile (\<lambda>c. c \<noteq> CHR ''/'') (TrimPrefix (RepositoryConfig.URL (config r)) ''oci://''),
              ''--username'', Username (config r), ''--password-stdin''],
      Stdin = Some (Password (config r)), Stdout = Unset, Stderr = OsStderr\<rparr>"

definition specPushCmd :: "Repository \<Rightarrow> string \<Rightarrow> Cmd" where
  "specPushCmd r packagePath =
     \<lparr>Args = [''helm'', ''push'', packagePath, RepositoryConfig.URL (config r)],
      Stdin = None, Stdout = OsStdout, Stderr = OsStderr\<rparr>"

section \<open>An example world\<close>

text \<open>
  Concrete values at which the theorems are instantiated: a chart directory \<^verbatim>\<open>chart\<close>
  whose manifest has the given text, a file system that accepts every write, a parser
  that returns \<open>exampleChart\<close>, a server that answers every request with the same
  response, and commands that answer as \<open>run\<close> says.
\<close>

definition exampleChart :: Chart where
  "exampleChart =
     \<lparr>APIVersion = ''v2'', Chart.Name = ''my-chart'', Chart.Version = ''1.0.0'', AppVersion = [],
      Description = ''Test chart'', Chart.Type = [], Keywords = [], Home = [], Sources = [],
      Chart.Dependencies = [], Maintainers = [], Icon = [], Deprecated = False,
      Chart.KubeVersion = []\<rparr>"

text \<open>Example tables: those of the library up to U+00FF, and nothing beyond.\<close>

definition exampleUnicode :: Unicode where
  "exampleUnicode =
     \<lparr>IsLetter = (\<lambda>r. r = 0xAA \<or> r = 0xB5 \<or> r = 0xBA \<or>
                       (0xC0 \<le> r \<and> r \<le> 0xFF \<and> r \<noteq> 0xD7 \<and> r \<noteq> 0xF7)),
      IsDigit = (\<lambda>r. False),
      IsPrint = (\<lambda>r. 0xA1 \<le> r \<and> r \<le> 0xFF \<and> r \<noteq> 0xAD)\<rparr>"

definition exampleEnv ::
    "string \<Rightarrow> (Cmd \<Rightarrow> string \<times> error option) \<Rightarrow> Response \<Rightarrow> env" where
  "exampleEnv manifest run resp =
     \<lparr>unicode = exampleUnicode,
      filepath_Join = (\<lambda>dir name. dir @ ''/'' @ name),
      os_ReadFile = (\<lambda>p. if p = ''chart/Chart.yaml'' then Inr manifest else Inl ''no such file''),
      os_WriteFile = (\<lambda>p d. None),
      os_MkdirAll = (\<lambda>p. None),
      os_Open = (\<lambda>p. None),
      file_Stat = (\<lambda>p. Inr 4096),
      yaml_Unmarshal = (\<lambda>d. Inr exampleChart),
      cmd_Run = run,
      http_NewRequest = (\<lambda>m u. None),
      client_Do = (\<lambda>secs req. Inr resp)\<rparr>"

definition exampleRepo :: "string \<Rightarrow> string \<Rightarrow> string \<Rightarrow> Repository" where
  "exampleRepo kind user pass =
     \<lparr>config = \<lparr>Type = kind, RepositoryConfig.URL = ''oci://registry.example.com/charts'',
                 RepositoryConfig.Name = ''myrepo'', Username = user, Password = pass,
                 RegistryConfig = []\<rparr>,
      contextPath = []\<rparr>"

text \<open>
  A chart museum at \<^verbatim>\<open>https://charts.example.com\<close>, and a server that answers one method
  at one address and refuses every other connection.
\<close>

definition exampleMuseum :: "string \<Rightarrow> Repository" where
  "exampleMuseum kind =
     \<lparr>config = \<lparr>Type = kind, RepositoryConfig.URL = ''https://charts.example.com'',
                 RepositoryConfig.Name = ''museum'', Username = ''alice'', Password = ''s3cret'',
                 RegistryConfig = []\<rparr>,
      contextPath = []\<rparr>"

definition answersAt ::
    "string \<Rightarrow> string \<Rightarrow> error + Response \<Rightarrow> nat \<Rightarrow> Request \<Rightarrow> error + Response" where
  "answersAt method url answer secs req =
     (if Method req = method \<and> Request.URL req = url then answer
      else Inl ''connection refused'')"

definition exampleConfig :: "bool \<Rightarrow> Config" where
  "exampleConfig dry =
     \<lparr>ChartPath = ''chart'',
      Repository = \<lparr>Type = ''oci'', RepositoryConfig.URL = ''oci://registry.example.com/charts'',
                     RepositoryConfig.Name = ''myrepo'', Username = [], Password = [],
                     RegistryConfig = []\<rparr>,
      Config.Version = \<lparr>UpdateChart = True, UpdateAppVersion = True, AppVersionFormat = []\<rparr>,
      Lint = True, LintStrict = False, TemplateValidate = True, Test = False,
      Config.KubeVersion = [], APIVersions = [],
      Config.Dependencies = \<lparr>Update = True, Build = True\<rparr>,
      Sign = False, SignKey = [], Config.Keyring = [], Config.PassphraseFile = [],
      OutputDir = [], ContextPath = [], DryRun = dry\<rparr>"

definition loginFails :: "Cmd \<Rightarrow> string \<times> error option" where
  "loginFails cmd =
     (if take 3 (Args cmd) = [''helm'', ''registry'', ''login''] then ([], Some ''exit status 1'')
      else ([], None))"

section \<open>Properties of the artifact path extractor\<close>

lemma Index_ge: "Index s sub \<ge> - 1"
  by (induction s) (auto simp: Let_def)

lemma Index_bound: "Index s sub \<le> int (length s)"
  by (induction s) (auto simp: Let_def)

lemma Index_found: "Index s sub \<noteq> - 1 \<Longrightarrow> prefix sub (drop (nat (Index s sub)) s)"
proof (induction s)
  case Nil then show ?case by (auto split: if_splits)
next
  case (Cons c cs)
  show ?case
  proof (cases "prefix sub (c # cs)")
    case True then show ?thesis by simp
  next
    case False
    with Cons.prems have ne: "Index cs sub \<noteq> - 1" by (auto simp: Let_def split: if_splits)
    with Index_ge [of cs sub] have "Index cs sub \<ge> 0" by linarith
    then have "nat (Index cs sub + 1) = Suc (nat (Index cs sub))" by linarith
    with False ne Cons.IH show ?thesis by (simp add: Let_def)
  qed
qed

lemma Index_prefix: "prefix sub s \<Longrightarrow> Index s sub = 0"
  by (cases s) auto

lemma Index_le_occurrence: "Index (a @ sub @ b) sub \<noteq> - 1 \<and> Index (a @ sub @ b) sub \<le> int (length a)"
proof (induction a)
  case Nil show ?case by (simp add: Index_prefix)
next
  case (Cons c a)
  with Index_ge [of "a @ sub @ b" sub] show ?case by (auto simp: Let_def)
qed

lemma Contains_iff: "Contains s sub \<longleftrightarrow> (\<exists>a b. s = a @ sub @ b)"
proof
  assume "Contains s sub"
  then have ne: "Index s sub \<noteq> - 1" by (simp add: Contains_def)
  from Index_found [OF ne] obtain b where "drop (nat (Index s sub)) s = sub @ b"
    by (auto simp: prefix_def)
  then have "s = take (nat (Index s sub)) s @ sub @ b"
    by (metis append_take_drop_id)
  then show "\<exists>a b. s = a @ sub @ b" by blast
next
  assume "\<exists>a b. s = a @ sub @ b"
  then obtain a b where "s = a @ sub @ b" by blast
  with Index_le_occurrence [of a sub b] Index_ge [of s sub] show "Contains s sub"
    by (auto simp: Contains_def)
qed

lemma Index_first:
  assumes "s = a @ sub @ b" and "\<forall>a' b'. s = a' @ sub @ b' \<longrightarrow> length a \<le> length a'"
  shows "Index s sub = int (length a)"
proof -
  from assms(1) Index_le_occurrence [of a sub b]
  have ne: "Index s sub \<noteq> - 1" and le: "Index s sub \<le> int (length a)" by auto
  from Index_found [OF ne] obtain b' where "drop (nat (Index s sub)) s = sub @ b'"
    by (auto simp: prefix_def)
  then have "s = take (nat (Index s sub)) s @ sub @ b'"
    by (metis append_take_drop_id)
  with assms(2) have "length a \<le> length (take (nat (Index s sub)) s)" by blast
  then have "length a \<le> nat (Index s sub)" by simp
  moreover have "Index s sub \<ge> 0" using ne Index_ge [of s sub] by linarith
  ultimately have "int (length a) \<le> Index s sub" by linarith
  with le show ?thesis by simp
qed

lemma scanLines_skip: "\<forall>l\<in>set pre. \<not> Contains l marker \<Longrightarrow> scanLines (pre @ rest) = scanLines rest"
  by (induction pre) auto

lemma scanLines_None: "scanLines ls = None \<longleftrightarrow> (\<forall>l\<in>set ls. \<not> Contains l marker)"
  by (induction ls) (auto simp: Contains_def Let_def)

lemma scanLines_hit:
  assumes "line = a @ marker @ b" and "\<forall>a' b'. line = a' @ marker @ b' \<longrightarrow> length a \<le> length a'"
  shows "scanLines (line # rest) = Some (TrimSpace b)"
proof -
  have idx: "Index line marker = int (length a)" using assms by (rule Index_first)
  then have "Contains line marker" by (simp add: Contains_def)
  moreover have "drop (nat (int (length a) + int (length marker))) line = b"
    using assms(1) by (simp add: nat_add_distrib)
  ultimately show ?thesis using idx by (simp add: Let_def)
qed

text \<open>
  Claim C3.  \<^verbatim>\<open>extractPackagePath\<close> fails, with the "could not determine package path"
  error, exactly when no line of the output contains the marker \<^verbatim>\<open>saved it to:\<close>; that
  is so for the empty output.  Otherwise, on the first line that contains the marker, it
  returns the text behind the first occurrence of the marker, trimmed of white space at
  both ends; what is inside the path, spaces and colons included, is kept.
\<close>

theorem extractPackagePath_first_marker:
  "((\<forall>line\<in>set (Split output nl). \<not> (\<exists>a b. line = a @ marker @ b)) \<longleftrightarrow>
      extractPackagePath output = Inl (''could not determine package path from output: '' @ output))
   \<and> (\<forall>pre line post a b.
        Split output nl = pre @ line # post \<and>
        (\<forall>l\<in>set pre. \<not> (\<exists>a' b'. l = a' @ marker @ b')) \<and>
        line = a @ marker @ b \<and>
        (\<forall>a' b'. line = a' @ marker @ b' \<longrightarrow> length a \<le> length a')
        \<longrightarrow> extractPackagePath output = Inr (TrimSpace b))
   \<and> extractPackagePath [] = Inl ''could not determine package path from output: ''"
proof (intro conjI allI impI)
  show "(\<forall>line\<in>set (Split output nl). \<not> (\<exists>a b. line = a @ marker @ b)) \<longleftrightarrow>
      extractPackagePath output = Inl (''could not determine package path from output: '' @ output)"
    using scanLines_None [of "Split output nl"]
    by (auto simp: extractPackagePath_def Contains_iff split: option.splits)
next
  fix pre line post a b
  assume h: "Split output nl = pre @ line # post \<and>
        (\<forall>l\<in>set pre. \<not> (\<exists>a' b'. l = a' @ marker @ b')) \<and>
        line = a @ marker @ b \<and>
        (\<forall>a' b'. line = a' @ marker @ b' \<longrightarrow> length a \<le> length a')"
  then have "scanLines (pre @ line # post) = scanLines (line # post)"
    by (intro scanLines_skip) (simp add: Contains_iff)
  also have "\<dots> = Some (TrimSpace b)" using h by (intro scanLines_hit) auto
  finally show "extractPackagePath output = Inr (TrimSpace b)"
    using h by (simp add: extractPackagePath_def)
next
  show "extractPackagePath [] = Inl ''could not determine package path from output: ''"
    by (simp add: extractPackagePath_def Contains_def marker_def)
qed


theorem extractPackagePath_first_marker_witness:
  "Split (''Updating dependencies...'' @ [nl] @
          ''Successfully packaged chart and saved it to: /a/b c.tgz'' @ [nl]) nl
     = [''Updating dependencies...''] @
       ''Successfully packaged chart and saved it to: /a/b c.tgz'' # [[]]
   \<and> extractPackagePath (''Updating dependencies...'' @ [nl] @
          ''Successfully packaged chart and saved it to: /a/b c.tgz'' @ [nl])
     = Inr ''/a/b c.tgz''
   \<and> extractPackagePath (''Error: chart not found'' @ [nl])
     = Inl (''could not determine package path from output: '' @ ''Error: chart not found'' @ [nl])"
proof -
  let ?out = "''Updating dependencies...'' @ [nl] @
          ''Successfully packaged chart and saved it to: /a/b c.tgz'' @ [nl]"
  let ?line = "''Successfully packaged chart and saved it to: /a/b c.tgz''"
  let ?a = "''Successfully packaged chart and ''"
  let ?b = "'' /a/b c.tgz''"
  have s: "Split ?out nl = [''Updating dependencies...''] @ ?line # [[]]"
    by simp
  have "\<not> Contains ''Updating dependencies...'' marker"
    by (simp add: Contains_def marker_def)
  then have p: "\<forall>l\<in>set [''Updating dependencies...'']. \<not> (\<exists>a' b'. l = a' @ marker @ b')"
    by (simp add: Contains_iff)
  have l: "?line = ?a @ marker @ ?b"
    by (simp add: marker_def)
  have i: "Index ?line marker = 32"
    by (simp add: marker_def)
  have f: "\<forall>a' b'. ?line = a' @ marker @ b' \<longrightarrow> length ?a \<le> length a'"
  proof (intro allI impI)
    fix a' b' assume "?line = a' @ marker @ b'"
    with Index_le_occurrence [of a' marker b'] i have "32 \<le> int (length a')"
      by simp
    then show "length ?a \<le> length a'" by simp
  qed
  have "extractPackagePath ?out = Inr (TrimSpace ?b)"
    using extractPackagePath_first_marker [of ?out] s p l f by blast
  moreover have "TrimSpace ?b = ''/a/b c.tgz''"
    by code_simp
  moreover have "\<not> Contains ''Error: chart not found'' marker" and "\<not> Contains [] marker"
    by (simp_all add: Contains_def marker_def)
  then have "\<forall>line\<in>set (Split (''Error: chart not found'' @ [nl]) nl).
                   \<not> (\<exists>a b. line = a @ marker @ b)"
    by (simp add: Contains_iff)
  then have "extractPackagePath (''Error: chart not found'' @ [nl])
     = Inl (''could not determine package path from output: '' @ ''Error: chart not found'' @ [nl])"
    using extractPackagePath_first_marker [of "''Error: chart not found'' @ [nl]"] by blast
  ultimately show ?thesis using s by simp
qed

section \<open>Properties of the publisher\<close>

text \<open>
  Claim C9.  If the kind of the target is none of \<^verbatim>\<open>oci\<close>, \<^verbatim>\<open>chartmuseum\<close> and
  \<^verbatim>\<open>http\<close>, \<^verbatim>\<open>Push\<close> fails with the message "unsupported repository type: " followed by
  the kind, and has performed no action at all: no file is opened, no request is sent
  and no command is run.
\<close>

theorem Push_unsupported_type:
  "Type (config r) \<notin> {''oci'', ''chartmuseum'', ''http''} \<Longrightarrow>
     Push e r packagePath = (Some (''unsupported repository type: '' @ Type (config r)), [])"
  by (simp add: Push_def)

theorem Push_unsupported_type_witness:
  "Type (config (exampleRepo ''unknown'' [] [])) \<notin> {''oci'', ''chartmuseum'', ''http''} \<and>
   Push (exampleEnv [] loginFails \<lparr>StatusCode = 200, Response.Body = []\<rparr>)
     (exampleRepo ''unknown'' [] []) ''my-chart-1.0.0.tgz''
     = (Some ''unsupported repository type: unknown'', [])"
  using Push_unsupported_type [of "exampleRepo ''unknown'' [] []"
          "exampleEnv [] loginFails \<lparr>StatusCode = 200, Response.Body = []\<rparr>"
          "''my-chart-1.0.0.tgz''"]
  by (simp add: exampleRepo_def)

lemma Index_char:
  "Index s [c] = (if c \<in> set s then int (length (takeWhile (\<lambda>x. x \<noteq> c) s)) else - 1)"
  by (induction s) (auto simp: Let_def)

lemma SplitN_2_first: "SplitN s [c] 2 ! 0 = takeWhile (\<lambda>x. x \<noteq> c) s"
proof (cases "c \<in> set s")
  case True
  then show ?thesis
    by (simp add: numeral_2_eq_2 Index_char Let_def takeWhile_eq_take [symmetric])
next
  case False
  then have "takeWhile (\<lambda>x. x \<noteq> c) s = s" by (auto simp: takeWhile_eq_all_conv)
  then have tw: "takeWhile (\<lambda>x. x \<noteq> c) s = s" .
  from False have "SplitN s [c] 2 = [s]"
    by (simp add: numeral_2_eq_2 Index_char Let_def)
  then show ?thesis by (simp add: tw)
qed

lemma pushOCI_with_credentials:
  assumes "Username (config r) \<noteq> []" and "Password (config r) \<noteq> []"
  shows "pushOCI e r packagePath =
     (case snd (cmd_Run e (specLoginCmd r)) of
        Some err \<Rightarrow> (Some (''registry login failed: '' @ err), [EvRun (specLoginCmd r)])
      | None \<Rightarrow>
          (case snd (cmd_Run e (specPushCmd r packagePath)) of
             Some err \<Rightarrow> (Some (''helm push failed: '' @ err),
                           [EvRun (specLoginCmd r), EvRun (specPushCmd r packagePath)])
           | None \<Rightarrow> (None, [EvRun (specLoginCmd r), EvRun (specPushCmd r packagePath)])))"
  using assms
  by (simp add: pushOCI_def registryLogin_def specLoginCmd_def specPushCmd_def Let_def SplitN_2_first
           split: option.splits)

lemma pushOCI_without_credentials:
  assumes "Username (config r) = [] \<or> Password (config r) = []"
  shows "pushOCI e r packagePath =
     (case snd (cmd_Run e (specPushCmd r packagePath)) of
        Some err \<Rightarrow> (Some (''helm push failed: '' @ err), [EvRun (specPushCmd r packagePath)])
      | None \<Rightarrow> (None, [EvRun (specPushCmd r packagePath)]))"
  using assms
  by (auto simp: pushOCI_def specPushCmd_def Let_def split: option.splits)

text \<open>
  Claim C5.  For a target of kind \<^verbatim>\<open>oci\<close> with a user name and a password, the first
  action of \<^verbatim>\<open>Push\<close> is the login command at the registry host, with the password on
  standard input.  If the login fails, \<^verbatim>\<open>Push\<close> returns "registry login failed: "
  followed by the error of the login, and the login is its only action: the push command
  is not run.  Every command that \<^verbatim>\<open>Push\<close> runs is this login or the push command, whose
  argument vectors are built from the host, the user name, the package path and the
  address, so the password is never an argument.
\<close>

theorem Push_oci_login_first:
  assumes "Type (config r) = ''oci''"
      and "Username (config r) \<noteq> []" and "Password (config r) \<noteq> []"
  shows "(\<exists>rest. snd (Push e r packagePath) = EvRun (specLoginCmd r) # rest)
       \<and> (\<forall>err. snd (cmd_Run e (specLoginCmd r)) = Some err \<longrightarrow>
              Push e r packagePath =
                (Some (''registry login failed: '' @ err), [EvRun (specLoginCmd r)]))
       \<and> (\<forall>ev\<in>set (snd (Push e r packagePath)).
              ev = EvRun (specLoginCmd r) \<or> ev = EvRun (specPushCmd r packagePath))"
  using assms
  by (auto simp: Push_def pushOCI_with_credentials split: option.splits)

theorem Push_oci_login_first_witness:
  "Type (config (exampleRepo ''oci'' ''alice'' ''s3cret'')) = ''oci''
   \<and> specLoginCmd (exampleRepo ''oci'' ''alice'' ''s3cret'') =
        \<lparr>Args = [''helm'', ''registry'', ''login'', ''registry.example.com'',
                 ''--username'', ''alice'', ''--password-stdin''],
         Stdin = Some ''s3cret'', Stdout = Unset, Stderr = OsStderr\<rparr>
   \<and> Push (exampleEnv [] loginFails \<lparr>StatusCode = 200, Response.Body = []\<rparr>)
          (exampleRepo ''oci'' ''alice'' ''s3cret'') ''my-chart-1.0.0.tgz''
       = (Some ''registry login failed: exit status 1'',
          [EvRun (specLoginCmd (exampleRepo ''oci'' ''alice'' ''s3cret''))])"
proof -
  let ?r = "exampleRepo ''oci'' ''alice'' ''s3cret''"
  let ?e = "exampleEnv [] loginFails \<lparr>StatusCode = 200, Response.Body = []\<rparr>"
  have t: "Type (config ?r) = ''oci''" and u: "Username (config ?r) \<noteq> []"
    and p: "Password (config ?r) \<noteq> []"
    by (simp_all add: exampleRepo_def)
  have l: "specLoginCmd ?r =
        \<lparr>Args = [''helm'', ''registry'', ''login'', ''registry.example.com'',
                 ''--username'', ''alice'', ''--password-stdin''],
         Stdin = Some ''s3cret'', Stdout = Unset, Stderr = OsStderr\<rparr>"
    by (simp add: specLoginCmd_def exampleRepo_def TrimPrefix_def)
  have f: "snd (cmd_Run ?e (specLoginCmd ?r)) = Some ''exit status 1''"
    by (simp add: l exampleEnv_def loginFails_def)
  from Push_oci_login_first [OF t u p, of ?e "''my-chart-1.0.0.tgz''"] f
  have "Push ?e ?r ''my-chart-1.0.0.tgz''
       = (Some ''registry login failed: exit status 1'', [EvRun (specLoginCmd ?r)])"
    by simp
  with t l show ?thesis by simp
qed

text \<open>
  Claim C10.  \<^verbatim>\<open>pushOCI\<close> runs a login command if and only if the user name and the
  password are both non-empty.  If exactly one of them is set, the push command is its
  only action.
\<close>

theorem pushOCI_login_iff_both_credentials:
  "((\<exists>cmd. EvRun cmd \<in> set (snd (pushOCI e r packagePath)) \<and>
            take 3 (Args cmd) = [''helm'', ''registry'', ''login''])
      \<longleftrightarrow> Username (config r) \<noteq> [] \<and> Password (config r) \<noteq> [])
   \<and> ((Username (config r) = []) \<noteq> (Password (config r) = []) \<longrightarrow>
         snd (pushOCI e r packagePath) = [EvRun (specPushCmd r packagePath)])"
proof (cases "Username (config r) \<noteq> [] \<and> Password (config r) \<noteq> []")
  case True
  then have "EvRun (specLoginCmd r) \<in> set (snd (pushOCI e r packagePath))"
    by (simp add: pushOCI_with_credentials split: option.splits)
  moreover have "take 3 (Args (specLoginCmd r)) = [''helm'', ''registry'', ''login'']"
    by (simp add: specLoginCmd_def)
  ultimately show ?thesis using True by blast
next
  case False
  then have t: "snd (pushOCI e r packagePath) = [EvRun (specPushCmd r packagePath)]"
    by (simp add: pushOCI_without_credentials split: option.splits)
  have "take 3 (Args (specPushCmd r packagePath)) \<noteq> [''helm'', ''registry'', ''login'']"
    by (simp add: specPushCmd_def)
  with t False show ?thesis by auto
qed

theorem pushOCI_login_iff_both_credentials_witness:
  "snd (pushOCI (exampleEnv [] loginFails \<lparr>StatusCode = 200, Response.Body = []\<rparr>)
          (exampleRepo ''oci'' ''alice'' []) ''my-chart-1.0.0.tgz'')
     = [EvRun \<lparr>Args = [''helm'', ''push'', ''my-chart-1.0.0.tgz'', ''oci://registry.example.com/charts''],
               Stdin = None, Stdout = OsStdout, Stderr = OsStderr\<rparr>]
   \<and> (\<exists>cmd. EvRun cmd \<in> set (snd (pushOCI (exampleEnv [] loginFails \<lparr>StatusCode = 200, Response.Body = []\<rparr>)
                                     (exampleRepo ''oci'' ''alice'' ''s3cret'') ''my-chart-1.0.0.tgz''))
            \<and> take 3 (Args cmd) = [''helm'', ''registry'', ''login''])"
proof -
  let ?e = "exampleEnv [] loginFails \<lparr>StatusCode = 200, Response.Body = []\<rparr>"
  have "(Username (config (exampleRepo ''oci'' ''alice'' [])) = [])
          \<noteq> (Password (config (exampleRepo ''oci'' ''alice'' [])) = [])"
    by (simp add: exampleRepo_def)
  with pushOCI_login_iff_both_credentials [of ?e "exampleRepo ''oci'' ''alice'' []" "''my-chart-1.0.0.tgz''"]
  have "snd (pushOCI ?e (exampleRepo ''oci'' ''alice'' []) ''my-chart-1.0.0.tgz'')
          = [EvRun (specPushCmd (exampleRepo ''oci'' ''alice'' []) ''my-chart-1.0.0.tgz'')]"
    by blast
  moreover have "Username (config (exampleRepo ''oci'' ''alice'' ''s3cret'')) \<noteq> []
               \<and> Password (config (exampleRepo ''oci'' ''alice'' ''s3cret'')) \<noteq> []"
    by (simp add: exampleRepo_def)
  with pushOCI_login_iff_both_credentials [of ?e "exampleRepo ''oci'' ''alice'' ''s3cret''" "''my-chart-1.0.0.tgz''"]
  have "\<exists>cmd. EvRun cmd \<in> set (snd (pushOCI ?e (exampleRepo ''oci'' ''alice'' ''s3cret'') ''my-chart-1.0.0.tgz''))
            \<and> take 3 (Args cmd) = [''helm'', ''registry'', ''login'']"
    by blast
  ultimately show ?thesis by (simp add: specPushCmd_def exampleRepo_def)
qed

text \<open>
  Claim C4.  Take a target of kind \<^verbatim>\<open>chartmuseum\<close>; let \<open>endpoint\<close> be its address, then
  the context path if there is one, then \<^verbatim>\<open>/api/charts\<close>, and let \<open>req\<close> be the POST of
  the package file to \<open>endpoint\<close>.  If the package file opens, this request is created
  and the server answers it with a response, then \<^verbatim>\<open>Push\<close> has opened the file and sent
  this one request, and it succeeds if the status is 200 or 201 and otherwise fails with
  "upload failed with status ", the status code in decimal, a colon and the body of the
  response.  In every world \<^verbatim>\<open>Push\<close> succeeds exactly when the file opens, the request
  is created and the answer to it has status 200 or 201.
\<close>

theorem Push_chartmuseum_status:
  assumes kind: "Type (config r) = ''chartmuseum''"
      and endpoint: "endpoint =
             (if contextPath r \<noteq> [] then
                RepositoryConfig.URL (config r) @ ''/'' @ contextPath r @ ''/api/charts''
              else RepositoryConfig.URL (config r) @ ''/api/charts'')"
      and req: "req =
             \<lparr>Method = ''POST'', Request.URL = endpoint, Request.Body = packagePath,
              Header = [(''Content-Type'', ''application/gzip'')], ContentLength = 0,
              BasicAuth = (if Username (config r) \<noteq> [] \<and> Password (config r) \<noteq> []
                           then Some (Username (config r), Password (config r)) else None)\<rparr>"
  shows "(os_Open e packagePath = None \<and> http_NewRequest e ''POST'' endpoint = None \<and>
          client_Do e 60 req = Inr resp \<longrightarrow>
            Push e r packagePath =
              (if StatusCode resp = 200 \<or> StatusCode resp = 201 then None
               else Some (''upload failed with status '' @ Itoa (StatusCode resp) @ '': '' @
                          Response.Body resp),
               [EvOpen packagePath, EvDo 60 req]))
       \<and> (fst (Push e r packagePath) = None \<longleftrightarrow>
            os_Open e packagePath = None \<and> http_NewRequest e ''POST'' endpoint = None \<and>
            (\<exists>answer. client_Do e 60 req = Inr answer \<and>
                 (StatusCode answer = 200 \<or> StatusCode answer = 201)))"
proof -
  have p: "Push e r packagePath =
     (case os_Open e packagePath of
        Some err \<Rightarrow> (Some (''failed to open package: '' @ err), [EvOpen packagePath])
      | None \<Rightarrow>
          (case http_NewRequest e ''POST'' endpoint of
             Some err \<Rightarrow> (Some (''failed to create request: '' @ err), [EvOpen packagePath])
           | None \<Rightarrow>
               (case client_Do e 60 req of
                  Inl err \<Rightarrow> (Some (''failed to push chart: '' @ err),
                               [EvOpen packagePath, EvDo 60 req])
                | Inr resp \<Rightarrow>
                    if StatusCode resp \<noteq> 201 \<and> StatusCode resp \<noteq> 200 then
                      (Some (''upload failed with status '' @ Itoa (StatusCode resp) @
                             '': '' @ Response.Body resp),
                       [EvOpen packagePath, EvDo 60 req])
                    else (None, [EvOpen packagePath, EvDo 60 req]))))"
    using kind unfolding Push_def pushChartMuseum_def Let_def endpoint req
    by (simp split del: if_split)
  have a: "os_Open e packagePath = None \<and> http_NewRequest e ''POST'' endpoint = None \<and>
          client_Do e 60 req = Inr resp \<longrightarrow>
            Push e r packagePath =
              (if StatusCode resp = 200 \<or> StatusCode resp = 201 then None
               else Some (''upload failed with status '' @ Itoa (StatusCode resp) @ '': '' @
                          Response.Body resp),
               [EvOpen packagePath, EvDo 60 req])"
    by (auto simp: p)
  have b: "fst (Push e r packagePath) = None \<longleftrightarrow>
            os_Open e packagePath = None \<and> http_NewRequest e ''POST'' endpoint = None \<and>
            (\<exists>answer. client_Do e 60 req = Inr answer \<and>
                 (StatusCode answer = 200 \<or> StatusCode answer = 201))"
  proof (cases "os_Open e packagePath")
    case (Some err)
    then show ?thesis by (simp add: p)
  next
    case None
    note o = this
    show ?thesis
    proof (cases "http_NewRequest e ''POST'' endpoint")
      case (Some err)
      with o show ?thesis by (simp add: p)
    next
      case None
      note n = this
      show ?thesis
      proof (cases "client_Do e 60 req")
        case (Inl err)
        with o n show ?thesis by (simp add: p)
      next
        case (Inr answer)
        with o n show ?thesis by (auto simp: p)
      qed
    qed
  qed
  from a b show ?thesis by blast
qed

theorem Push_chartmuseum_status_witness:
  "Push ((exampleEnv [] loginFails \<lparr>StatusCode = 500, Response.Body = []\<rparr>)
           \<lparr>client_Do := answersAt ''POST'' ''https://charts.example.com/api/charts''
                           (Inr \<lparr>StatusCode = 409, Response.Body = ''file already exists''\<rparr>)\<rparr>)
        (exampleMuseum ''chartmuseum'') ''my-chart-1.0.0.tgz''
     = (Some ''upload failed with status 409: file already exists'',
        [EvOpen ''my-chart-1.0.0.tgz'',
         EvDo 60 \<lparr>Method = ''POST'', Request.URL = ''https://charts.example.com/api/charts'',
                  Request.Body = ''my-chart-1.0.0.tgz'',
                  Header = [(''Content-Type'', ''application/gzip'')], ContentLength = 0,
                  BasicAuth = Some (''alice'', ''s3cret'')\<rparr>])
   \<and> fst (Push ((exampleEnv [] loginFails \<lparr>StatusCode = 500, Response.Body = []\<rparr>)
           \<lparr>client_Do := answersAt ''POST'' ''https://charts.example.com/api/charts''
                           (Inr \<lparr>StatusCode = 201, Response.Body = []\<rparr>)\<rparr>)
        (exampleMuseum ''chartmuseum'') ''my-chart-1.0.0.tgz'') = None"
proof -
  let ?url = "''https://charts.example.com/api/charts''"
  let ?req = "\<lparr>Method = ''POST'', Request.URL = ?url, Request.Body = ''my-chart-1.0.0.tgz'',
               Header = [(''Content-Type'', ''application/gzip'')], ContentLength = 0,
               BasicAuth = Some (''alice'', ''s3cret'')\<rparr>"
  let ?no = "\<lparr>StatusCode = 409, Response.Body = ''file already exists''\<rparr>"
  let ?ok = "\<lparr>StatusCode = 201, Response.Body = []\<rparr>"
  let ?world = "\<lambda>answer. (exampleEnv [] loginFails \<lparr>StatusCode = 500, Response.Body = []\<rparr>)
                   \<lparr>client_Do := answersAt ''POST'' ?url (Inr answer)\<rparr>"
  let ?r = "exampleMuseum ''chartmuseum''"
  have kind: "Type (config ?r) = ''chartmuseum''" by (simp add: exampleMuseum_def)
  have endpoint: "?url =
             (if contextPath ?r \<noteq> [] then
                RepositoryConfig.URL (config ?r) @ ''/'' @ contextPath ?r @ ''/api/charts''
              else RepositoryConfig.URL (config ?r) @ ''/api/charts'')"
    by (simp add: exampleMuseum_def)
  have req: "?req =
             \<lparr>Method = ''POST'', Request.URL = ?url, Request.Body = ''my-chart-1.0.0.tgz'',
              Header = [(''Content-Type'', ''application/gzip'')], ContentLength = 0,
              BasicAuth = (if Username (config ?r) \<noteq> [] \<and> Password (config ?r) \<noteq> []
                           then Some (Username (config ?r), Password (config ?r)) else None)\<rparr>"
    by (simp add: exampleMuseum_def)
  have w: "os_Open (?world answer) ''my-chart-1.0.0.tgz'' = None \<and>
           http_NewRequest (?world answer) ''POST'' ?url = None \<and>
           client_Do (?world answer) 60 ?req = Inr answer" for answer
    by (simp add: exampleEnv_def answersAt_def)
  have i: "Itoa 409 = ''409''" by code_simp
  from Push_chartmuseum_status [OF kind endpoint req, of "?world ?no" ?no] w [of ?no] i
  have 1: "Push (?world ?no) ?r ''my-chart-1.0.0.tgz''
     = (Some ''upload failed with status 409: file already exists'',
        [EvOpen ''my-chart-1.0.0.tgz'', EvDo 60 ?req])"
    by simp
  from Push_chartmuseum_status [OF kind endpoint req, of "?world ?ok" ?ok] w [of ?ok]
  have 2: "fst (Push (?world ?ok) ?r ''my-chart-1.0.0.tgz'') = None"
    by simp
  from 1 2 show ?thesis by simp
qed

text \<open>
  Claim C8.  Take a target of kind \<^verbatim>\<open>http\<close> and let \<open>req\<close> be the PUT of the package
  file to the address of the target with content length \<open>fileSize\<close>.  If the package
  file opens, its size is \<open>fileSize\<close> and this request is created, then \<^verbatim>\<open>Push\<close> has
  opened the file, asked for its size and sent this one request, whose content length
  is the size of the file.  If the request gets no response \<^verbatim>\<open>Push\<close> fails with the
  error of the client; if the status of the response is in 200..299 it succeeds;
  for every other status it fails with "upload failed with status ", the status code,
  a colon and the body of the response.
\<close>

theorem Push_http_content_length:
  assumes kind: "Type (config r) = ''http''"
      and req: "req =
             \<lparr>Method = ''PUT'', Request.URL = RepositoryConfig.URL (config r),
              Request.Body = packagePath,
              Header = [(''Content-Type'', ''application/gzip'')], ContentLength = fileSize,
              BasicAuth = (if Username (config r) \<noteq> [] \<and> Password (config r) \<noteq> []
                           then Some (Username (config r), Password (config r)) else None)\<rparr>"
      and opened: "os_Open e packagePath = None"
      and stat: "file_Stat e packagePath = Inr fileSize"
      and built: "http_NewRequest e ''PUT'' (RepositoryConfig.URL (config r)) = None"
  shows "snd (Push e r packagePath) = [EvOpen packagePath, EvStat packagePath, EvDo 120 req]
       \<and> Method req = ''PUT'' \<and> ContentLength req = fileSize
       \<and> fst (Push e r packagePath) =
           (case client_Do e 120 req of
              Inl err \<Rightarrow> Some (''failed to push chart: '' @ err)
            | Inr resp \<Rightarrow>
                if 200 \<le> StatusCode resp \<and> StatusCode resp < 300 then None
                else Some (''upload failed with status '' @ Itoa (StatusCode resp) @ '': '' @
                           Response.Body resp))"
proof -
  have p: "Push e r packagePath =
     (case client_Do e 120 req of
        Inl err \<Rightarrow>
          (Some (''failed to push chart: '' @ err),
           [EvOpen packagePath, EvStat packagePath, EvDo 120 req])
      | Inr resp \<Rightarrow>
          if StatusCode resp < 200 \<or> StatusCode resp \<ge> 300 then
            (Some (''upload failed with status '' @ Itoa (StatusCode resp) @
                   '': '' @ Response.Body resp),
             [EvOpen packagePath, EvStat packagePath, EvDo 120 req])
          else (None, [EvOpen packagePath, EvStat packagePath, EvDo 120 req]))"
    using kind opened stat built unfolding Push_def pushHTTP_def Let_def req
    by (simp split del: if_split)
  show ?thesis
  proof (cases "client_Do e 120 req")
    case (Inl err)
    then show ?thesis by (simp add: p) (simp add: req)
  next
    case (Inr resp)
    then show ?thesis by (auto simp: p) (simp_all add: req)
  qed
qed

theorem Push_http_content_length_witness:
  "Push ((exampleEnv [] loginFails \<lparr>StatusCode = 500, Response.Body = []\<rparr>)
           \<lparr>client_Do := answersAt ''PUT'' ''https://charts.example.com''
                           (Inr \<lparr>StatusCode = 403, Response.Body = ''forbidden''\<rparr>)\<rparr>)
        (exampleMuseum ''http'') ''my-chart-1.0.0.tgz''
     = (Some ''upload failed with status 403: forbidden'',
        [EvOpen ''my-chart-1.0.0.tgz'', EvStat ''my-chart-1.0.0.tgz'',
         EvDo 120 \<lparr>Method = ''PUT'', Request.URL = ''https://charts.example.com'',
                   Request.Body = ''my-chart-1.0.0.tgz'',
                   Header = [(''Content-Type'', ''application/gzip'')],
                   ContentLength = 4096, BasicAuth = Some (''alice'', ''s3cret'')\<rparr>])
   \<and> Push ((exampleEnv [] loginFails \<lparr>StatusCode = 500, Response.Body = []\<rparr>)
           \<lparr>client_Do := answersAt ''PUT'' ''https://charts.example.com''
                           (Inl ''context deadline exceeded'')\<rparr>)
        (exampleMuseum ''http'') ''my-chart-1.0.0.tgz''
     = (Some ''failed to push chart: context deadline exceeded'',
        [EvOpen ''my-chart-1.0.0.tgz'', EvStat ''my-chart-1.0.0.tgz'',
         EvDo 120 \<lparr>Method = ''PUT'', Request.URL = ''https://charts.example.com'',
                   Request.Body = ''my-chart-1.0.0.tgz'',
                   Header = [(''Content-Type'', ''application/gzip'')],
                   ContentLength = 4096, BasicAuth = Some (''alice'', ''s3cret'')\<rparr>])"
proof -
  let ?url = "''https://charts.example.com''"
  let ?req = "\<lparr>Method = ''PUT'', Request.URL = ?url, Request.Body = ''my-chart-1.0.0.tgz'',
               Header = [(''Content-Type'', ''application/gzip'')], ContentLength = 4096,
               BasicAuth = Some (''alice'', ''s3cret'')\<rparr>"
  let ?world = "\<lambda>answer. (exampleEnv [] loginFails \<lparr>StatusCode = 500, Response.Body = []\<rparr>)
                   \<lparr>client_Do := answersAt ''PUT'' ?url answer\<rparr>"
  let ?no = "Inr \<lparr>StatusCode = 403, Response.Body = ''forbidden''\<rparr> :: error + Response"
  let ?lost = "Inl ''context deadline exceeded'' :: error + Response"
  let ?r = "exampleMuseum ''http''"
  have kind: "Type (config ?r) = ''http''" by (simp add: exampleMuseum_def)
  have req: "?req =
             \<lparr>Method = ''PUT'', Request.URL = RepositoryConfig.URL (config ?r),
              Request.Body = ''my-chart-1.0.0.tgz'',
              Header = [(''Content-Type'', ''application/gzip'')], ContentLength = 4096,
              BasicAuth = (if Username (config ?r) \<noteq> [] \<and> Password (config ?r) \<noteq> []
                           then Some (Username (config ?r), Password (config ?r)) else None)\<rparr>"
    by (simp add: exampleMuseum_def)
  have opened: "os_Open (?world answer) ''my-chart-1.0.0.tgz'' = None"
    and stat: "file_Stat (?world answer) ''my-chart-1.0.0.tgz'' = Inr 4096"
    and built: "http_NewRequest (?world answer) ''PUT'' (RepositoryConfig.URL (config ?r)) = None"
    and ans: "client_Do (?world answer) 120 ?req = answer" for answer
    by (simp_all add: exampleEnv_def answersAt_def exampleMuseum_def)
  have i: "Itoa 403 = ''403''" by code_simp
  have 1: "Push (?world ?no) ?r ''my-chart-1.0.0.tgz''
     = (Some ''upload failed with status 403: forbidden'',
        [EvOpen ''my-chart-1.0.0.tgz'', EvStat ''my-chart-1.0.0.tgz'', EvDo 120 ?req])"
    using Push_http_content_length [OF kind req opened stat built, of ?no] ans [of ?no] i
    by (simp add: prod_eq_iff)
  have 2: "Push (?world ?lost) ?r ''my-chart-1.0.0.tgz''
     = (Some ''failed to push chart: context deadline exceeded'',
        [EvOpen ''my-chart-1.0.0.tgz'', EvStat ''my-chart-1.0.0.tgz'', EvDo 120 ?req])"
    using Push_http_content_length [OF kind req opened stat built, of ?lost] ans [of ?lost]
    by (simp add: prod_eq_iff)
  from 1 2 show ?thesis by simp
qed

section \<open>Properties of the post-publish hook\<close>

lemma executePostPublish_dry_run_value:
  assumes "DryRun cfg"
      and "ParseChart e (if ChartPath cfg = [] then ''.'' else ChartPath cfg) = (Inr chart, t)"
  shows "\<exists>l1 l2 l3 l4. executePostPublish e releaseCtx cfg logger0 =
           (\<lparr>Success = True,
             Message = ''[DRY-RUN] Would publish '' @ Chart.Name chart @ ''@'' @
                       ReleaseContext.Version releaseCtx @ '' to '' @
                       RepositoryConfig.URL (Repository cfg)\<rparr>,
            t @ [EvLog ''Packaging chart'' l1, EvLog ''[DRY-RUN] Would package chart'' l2,
                 EvLog ''Pushing chart to repository'' l3, EvLog ''[DRY-RUN] Would push chart'' l4,
                 EvLog ''PostPublish completed successfully''
                   (logger0 @ [(''version'', LStr (ReleaseContext.Version releaseCtx)),
                               (''chart'', LStr (Chart.Name chart))])])"
  using assms by (simp add: executePostPublish_def Let_def Info_def)

lemma executePostPublish_real_message:
  assumes "\<not> DryRun cfg"
  shows "\<not> prefix ''[DRY-RUN]'' (Message (fst (executePostPublish e releaseCtx cfg logger0)))"
  using assms
  by (simp add: executePostPublish_def Let_def case_prod_beta
           split del: if_split split: sum.splits option.splits)

lemma ParseChart_events: "ParseChart e dir = (res, t) \<Longrightarrow> t = [EvReadFile (filepath_Join e dir ''Chart.yaml'')]"
  by (auto simp: ParseChart_def Let_def split: sum.splits)

text \<open>
  Claim C7.  In dry-run mode, if the manifest is read and parsed, \<^verbatim>\<open>executePostPublish\<close>
  returns success with the message "[DRY-RUN] Would publish name@version to address".
  None of its actions is a command or a request: it reads the manifest and writes log
  records, nothing else.  Outside dry-run mode no message, of success or of failure,
  begins with "[DRY-RUN]".
\<close>

theorem executePostPublish_dry_run:
  assumes "DryRun cfg"
      and "fst (ParseChart e (if ChartPath cfg = [] then ''.'' else ChartPath cfg)) = Inr chart"
  shows "fst (executePostPublish e releaseCtx cfg logger0) =
           \<lparr>Success = True,
            Message = ''[DRY-RUN] Would publish '' @ Chart.Name chart @ ''@'' @
                      ReleaseContext.Version releaseCtx @ '' to '' @
                      RepositoryConfig.URL (Repository cfg)\<rparr>
       \<and> (\<forall>ev\<in>set (snd (executePostPublish e releaseCtx cfg logger0)).
             \<not> isSubprocess ev \<and> \<not> isNetwork ev \<and>
             ((\<exists>p. ev = EvReadFile p) \<or> (\<exists>msg attrs. ev = EvLog msg attrs)))
       \<and> (\<forall>e' releaseCtx' cfg' logger'.
             \<not> DryRun cfg' \<longrightarrow>
             \<not> prefix ''[DRY-RUN]'' (Message (fst (executePostPublish e' releaseCtx' cfg' logger'))))"
proof -
  let ?dir = "if ChartPath cfg = [] then ''.'' else ChartPath cfg"
  obtain t where p: "ParseChart e ?dir = (Inr chart, t)"
    using assms(2) by (cases "ParseChart e ?dir") auto
  then have t: "t = [EvReadFile (filepath_Join e ?dir ''Chart.yaml'')]"
    by (rule ParseChart_events)
  from executePostPublish_dry_run_value [OF assms(1) p, of releaseCtx logger0]
  obtain l1 l2 l3 l4 where v: "executePostPublish e releaseCtx cfg logger0 =
           (\<lparr>Success = True,
             Message = ''[DRY-RUN] Would publish '' @ Chart.Name chart @ ''@'' @
                       ReleaseContext.Version releaseCtx @ '' to '' @
                       RepositoryConfig.URL (Repository cfg)\<rparr>,
            t @ [EvLog ''Packaging chart'' l1, EvLog ''[DRY-RUN] Would package chart'' l2,
                 EvLog ''Pushing chart to repository'' l3, EvLog ''[DRY-RUN] Would push chart'' l4,
                 EvLog ''PostPublish completed successfully''
                   (logger0 @ [(''version'', LStr (ReleaseContext.Version releaseCtx)),
                               (''chart'', LStr (Chart.Name chart))])])"
    by blast
  have a: "fst (executePostPublish e releaseCtx cfg logger0) =
           \<lparr>Success = True,
            Message = ''[DRY-RUN] Would publish '' @ Chart.Name chart @ ''@'' @
                      ReleaseContext.Version releaseCtx @ '' to '' @
                      RepositoryConfig.URL (Repository cfg)\<rparr>"
    by (simp add: v)
  have b: "\<forall>ev\<in>set (snd (executePostPublish e releaseCtx cfg logger0)).
             \<not> isSubprocess ev \<and> \<not> isNetwork ev \<and>
             ((\<exists>p. ev = EvReadFile p) \<or> (\<exists>msg attrs. ev = EvLog msg attrs))"
    by (auto simp: v t)
  from a b executePostPublish_real_message show ?thesis by blast
qed

theorem executePostPublish_dry_run_witness:
  "DryRun (exampleConfig True)
   \<and> fst (executePostPublish (exampleEnv ''version: 1.0.0'' (\<lambda>c. ([], Some ''must not run''))
                  \<lparr>StatusCode = 500, Response.Body = []\<rparr>)
            \<lparr>ReleaseContext.Version = ''2.0.0''\<rparr> (exampleConfig True) [])
       = \<lparr>Success = True,
          Message = ''[DRY-RUN] Would publish my-chart@2.0.0 to oci://registry.example.com/charts''\<rparr>
   \<and> \<not> prefix ''[DRY-RUN]''
         (Message (fst (executePostPublish (exampleEnv ''version: 1.0.0'' (\<lambda>c. ([], Some ''must not run''))
                  \<lparr>StatusCode = 500, Response.Body = []\<rparr>)
            \<lparr>ReleaseContext.Version = ''2.0.0''\<rparr> (exampleConfig False) [])))"
proof -
  let ?e = "exampleEnv ''version: 1.0.0'' (\<lambda>c. ([], Some ''must not run''))
                  \<lparr>StatusCode = 500, Response.Body = []\<rparr>"
  have d: "DryRun (exampleConfig True)" and n: "\<not> DryRun (exampleConfig False)"
    by (simp_all add: exampleConfig_def)
  have p: "fst (ParseChart ?e (if ChartPath (exampleConfig True) = [] then ''.''
                               else ChartPath (exampleConfig True))) = Inr exampleChart"
    by (simp add: ParseChart_def exampleConfig_def exampleEnv_def)
  from executePostPublish_dry_run [OF d p, of "\<lparr>ReleaseContext.Version = ''2.0.0''\<rparr>" "[]"] d n
  show ?thesis
    by (simp add: exampleChart_def exampleConfig_def)
qed

section \<open>Properties of the manifest version patcher\<close>

text \<open>
  The scan of \<^verbatim>\<open>Match\<close> and \<^verbatim>\<open>ReplaceAll\<close> passes over a stretch of text in which no
  line begins with the key, and a line \<open>key @ val\<close> whose value \<open>val\<close> is not blank is
  matched as a whole.
\<close>

lemma Split_nonempty: "Split s c \<noteq> []"
  by (induction s) (auto split: list.splits)

lemma hd_Split: "hd (Split s c) = takeWhile (\<lambda>x. x \<noteq> c) s"
  by (induction s) (auto simp: Split_nonempty split: list.splits)

lemma Split_tl_Cons:
  "set (tl (Split (x # s) c)) = (if x = c then set (Split s c) else set (tl (Split s c)))"
  by (auto split: list.splits)

lemma prefix_first_line:
  assumes "nl \<notin> set key" and "prefix key (s @ rest)"
      and "nl \<in> set s \<or> rest = [] \<or> hd rest = nl"
  shows "prefix key (takeWhile (\<lambda>x. x \<noteq> nl) s)"
proof -
  from assms(2) obtain u where u: "s @ rest = key @ u" by (auto simp: prefix_def)
  have "takeWhile (\<lambda>x. x \<noteq> nl) (key @ u) = key @ takeWhile (\<lambda>x. x \<noteq> nl) u"
    using assms(1) by (intro takeWhile_append2) auto
  then have p: "prefix key (takeWhile (\<lambda>x. x \<noteq> nl) (s @ rest))"
    by (simp add: u)
  have "takeWhile (\<lambda>x. x \<noteq> nl) (s @ rest) = takeWhile (\<lambda>x. x \<noteq> nl) s"
  proof (cases "nl \<in> set s")
    case True then show ?thesis by (simp add: takeWhile_append1)
  next
    case False
    then have all: "\<And>x. x \<in> set s \<Longrightarrow> x \<noteq> nl" by auto
    from False assms(3) have "rest = [] \<or> hd rest = nl" by simp
    then have e: "takeWhile (\<lambda>x. x \<noteq> nl) rest = []" by (cases rest) auto
    have A: "takeWhile (\<lambda>x. x \<noteq> nl) (s @ rest) = s @ takeWhile (\<lambda>x. x \<noteq> nl) rest"
      using all by (intro takeWhile_append2) auto
    have B: "takeWhile (\<lambda>x. x \<noteq> nl) s = s"
      using all by (simp add: takeWhile_eq_all_conv)
    show ?thesis unfolding A e B by simp
  qed
  with p show ?thesis by simp
qed

lemma matchAt_no_prefix: "\<not> prefix key s \<Longrightarrow> matchAt key s = None"
  by (simp add: matchAt_def)

lemma replaceFrom_step:
  "(bol \<longrightarrow> \<not> prefix key (c # cs)) \<Longrightarrow>
     replaceFrom u key repl bol (c # cs) = c # replaceFrom u key repl (c = nl) cs"
  by (cases bol) (simp_all add: matchAt_no_prefix)

lemma replaceFrom_skip:
  assumes "nl \<notin> set key"
      and "rest = [] \<or> hd rest = nl \<or> s = [] \<or> last s = nl"
      and "bol \<longrightarrow> \<not> prefix key (hd (Split s nl))"
      and "\<forall>l\<in>set (tl (Split s nl)). \<not> prefix key l"
  shows "replaceFrom u key repl bol (s @ rest) =
           s @ replaceFrom u key repl (if s = [] then bol else last s = nl) rest"
  using assms(2-4)
proof (induction s arbitrary: bol)
  case Nil
  show ?case by simp
next
  case (Cons c cs)
  have nlin: "nl \<in> set (c # cs) \<or> rest = [] \<or> hd rest = nl"
    using Cons.prems(1) by (metis last_in_set list.distinct(1))
  have np: "bol \<longrightarrow> \<not> prefix key ((c # cs) @ rest)"
  proof
    assume b: bol
    show "\<not> prefix key ((c # cs) @ rest)"
    proof
      assume "prefix key ((c # cs) @ rest)"
      from prefix_first_line [OF assms(1) this nlin]
      have "prefix key (hd (Split (c # cs) nl))" by (simp only: hd_Split)
      with b Cons.prems(2) show False by blast
    qed
  qed
  then have step: "replaceFrom u key repl bol ((c # cs) @ rest) =
                     c # replaceFrom u key repl (c = nl) (cs @ rest)"
    using replaceFrom_step [of bol key c "cs @ rest" u repl] by simp
  have 1: "rest = [] \<or> hd rest = nl \<or> cs = [] \<or> last cs = nl"
    using Cons.prems(1) by (auto split: if_splits)
  have 2: "c = nl \<longrightarrow> \<not> prefix key (hd (Split cs nl))"
    using Cons.prems(3) Split_nonempty [of cs nl]
    by (auto simp: Split_tl_Cons simp del: Split.simps)
  have 3: "\<forall>l\<in>set (tl (Split cs nl)). \<not> prefix key l"
    using Cons.prems(3) Split_nonempty [of cs nl]
    by (auto simp: Split_tl_Cons simp del: Split.simps dest: list.set_sel(2))
  from Cons.IH [OF 1 2 3] step show ?case by simp
qed

lemma matchFrom_skip:
  assumes "nl \<notin> set key"
      and "rest = [] \<or> hd rest = nl \<or> s = [] \<or> last s = nl"
      and "bol \<longrightarrow> \<not> prefix key (hd (Split s nl))"
      and "\<forall>l\<in>set (tl (Split s nl)). \<not> prefix key l"
  shows "matchFrom key bol (s @ rest) =
           matchFrom key (if s = [] then bol else last s = nl) rest"
  using assms(2-4)
proof (induction s arbitrary: bol)
  case Nil
  show ?case by simp
next
  case (Cons c cs)
  have nlin: "nl \<in> set (c # cs) \<or> rest = [] \<or> hd rest = nl"
    using Cons.prems(1) by (metis last_in_set list.distinct(1))
  have np: "bol \<longrightarrow> \<not> prefix key ((c # cs) @ rest)"
  proof
    assume b: bol
    show "\<not> prefix key ((c # cs) @ rest)"
    proof
      assume "prefix key ((c # cs) @ rest)"
      from prefix_first_line [OF assms(1) this nlin]
      have "prefix key (hd (Split (c # cs) nl))" by (simp only: hd_Split)
      with b Cons.prems(2) show False by blast
    qed
  qed
  then have step: "matchFrom key bol ((c # cs) @ rest) = matchFrom key (c = nl) (cs @ rest)"
    by (cases bol) (simp_all add: matchAt_no_prefix)
  have 1: "rest = [] \<or> hd rest = nl \<or> cs = [] \<or> last cs = nl"
    using Cons.prems(1) by (auto split: if_splits)
  have 2: "c = nl \<longrightarrow> \<not> prefix key (hd (Split cs nl))"
    using Cons.prems(3) Split_nonempty [of cs nl]
    by (auto simp: Split_tl_Cons simp del: Split.simps)
  have 3: "\<forall>l\<in>set (tl (Split cs nl)). \<not> prefix key l"
    using Cons.prems(3) Split_nonempty [of cs nl]
    by (auto simp: Split_tl_Cons simp del: Split.simps dest: list.set_sel(2))
  from Cons.IH [OF 1 2 3] step show ?case by simp
qed

lemma matchAt_line:
  assumes "nl \<notin> set val" and "\<exists>c\<in>set val. \<not> isReSpace c" and "post = [] \<or> hd post = nl"
  shows "matchAt key (key @ val @ post) = Some (length key + length val)"
proof -
  let ?r = "dropWhile isReSpace val"
  from assms(2) obtain x where x: "x \<in> set val" "\<not> isReSpace x" by blast
  have tw: "takeWhile isReSpace (val @ post) = takeWhile isReSpace val"
    using x by (rule takeWhile_append1)
  have dw: "dropWhile isReSpace (val @ post) = ?r @ post"
    using x by (rule dropWhile_append1)
  have ne: "?r \<noteq> []" using assms(2) by (simp add: dropWhile_eq_Nil_conv)
  have "\<And>x. x \<in> set ?r \<Longrightarrow> x \<noteq> nl"
    using assms(1) by (auto dest: set_dropWhileD)
  then have "takeWhile (\<lambda>c. c \<noteq> nl) (?r @ post) = ?r @ takeWhile (\<lambda>c. c \<noteq> nl) post"
    by (intro takeWhile_append2) auto
  also have "takeWhile (\<lambda>c. c \<noteq> nl) post = []"
    using assms(3) by (cases post) auto
  finally have t: "takeWhile (\<lambda>c. c \<noteq> nl) (?r @ post) = ?r" by simp
  have "length (takeWhile isReSpace val) + length ?r = length val"
    by (metis length_append takeWhile_dropWhile_id)
  then show ?thesis
    using ne by (simp add: matchAt_def Let_def tw dw t del: dropWhile_eq_Nil_conv)
qed

lemma expand_plain: "CHR ''$'' \<notin> set t \<Longrightarrow> expand u t m = t"
  by (induction t) auto

lemma replaceFrom_one_line:
  assumes key: "key \<noteq> []" "nl \<notin> set key"
      and pre: "pre = [] \<or> last pre = nl" "\<forall>l\<in>set (Split pre nl). \<not> prefix key l"
      and val: "nl \<notin> set val" "\<exists>c\<in>set val. \<not> isReSpace c"
      and post: "post = [] \<or> hd post = nl" "\<forall>l\<in>set (Split post nl). \<not> prefix key l"
  shows "replaceFrom u key repl True (pre @ key @ val @ post) = pre @ expand u repl (key @ val) @ post"
proof -
  have tlsub: "\<And>s. set (tl (Split s nl)) \<subseteq> set (Split s nl)"
    by (metis Split_nonempty list.set_sel(2) subsetI)
  have hdin: "\<And>s. hd (Split s nl) \<in> set (Split s nl)"
    by (simp add: Split_nonempty)
  have a: "replaceFrom u key repl True (pre @ (key @ val @ post)) =
             pre @ replaceFrom u key repl (if pre = [] then True else last pre = nl) (key @ val @ post)"
    using pre tlsub [of pre] hdin [of pre]
    by (intro replaceFrom_skip [OF key(2)]) auto
  have b: "(if pre = [] then True else last pre = nl) = True" using pre(1) by auto
  obtain c cs where k: "key @ val @ post = c # cs" using key(1) by (cases key) auto
  have m: "matchAt key (c # cs) = Some (length key + length val)"
    using matchAt_line [OF val post(1), of key] by (simp add: k)
  have tk: "take (length key + length val) (c # cs) = key @ val"
   and dr: "drop (length key + length val) (c # cs) = post"
    by (simp_all add: k [symmetric])
  have "replaceFrom u key repl True (c # cs) = expand u repl (key @ val) @ replaceFrom u key repl False post"
    by (simp add: m tk dr del: take_Suc_Cons drop_Suc_Cons)
  moreover have "replaceFrom u key repl False (post @ []) =
                   post @ replaceFrom u key repl (if post = [] then False else last post = nl) []"
    using post(2) tlsub [of post]
    by (intro replaceFrom_skip [OF key(2)]) auto
  ultimately show ?thesis using a b k by simp
qed

lemma matchFrom_one_line:
  assumes key: "key \<noteq> []" "nl \<notin> set key"
      and pre: "pre = [] \<or> last pre = nl" "\<forall>l\<in>set (Split pre nl). \<not> prefix key l"
      and val: "nl \<notin> set val" "\<exists>c\<in>set val. \<not> isReSpace c"
      and post: "post = [] \<or> hd post = nl"
  shows "matchFrom key True (pre @ key @ val @ post)"
proof -
  have tlsub: "\<And>s. set (tl (Split s nl)) \<subseteq> set (Split s nl)"
    by (metis Split_nonempty list.set_sel(2) subsetI)
  have hdin: "\<And>s. hd (Split s nl) \<in> set (Split s nl)"
    by (simp add: Split_nonempty)
  have a: "matchFrom key True (pre @ (key @ val @ post)) =
             matchFrom key (if pre = [] then True else last pre = nl) (key @ val @ post)"
    using pre tlsub [of pre] hdin [of pre]
    by (intro matchFrom_skip [OF key(2)]) auto
  have b: "(if pre = [] then True else last pre = nl) = True" using pre(1) by auto
  obtain c cs where k: "key @ val @ post = c # cs" using key(1) by (cases key) auto
  have m: "matchAt key (c # cs) = Some (length key + length val)"
    using matchAt_line [OF val post, of key] by (simp add: k)
  then have "matchFrom key True (c # cs)" by simp
  with a b k show ?thesis by simp
qed

lemma Split_no_sep: "c \<notin> set s \<Longrightarrow> Split s c = [s]"
  by (induction s) auto

lemma matchFrom_none:
  assumes key: "nl \<notin> set key"
      and lines: "\<forall>l\<in>set (Split s nl). \<not> prefix key l"
      and rest: "rest = [] \<or> hd rest = nl \<or> s = [] \<or> last s = nl"
  shows "matchFrom key bol (s @ rest) = matchFrom key (if s = [] then bol else last s = nl) rest"
proof -
  have tlsub: "set (tl (Split s nl)) \<subseteq> set (Split s nl)"
    by (metis Split_nonempty list.set_sel(2) subsetI)
  have hdin: "hd (Split s nl) \<in> set (Split s nl)"
    by (simp add: Split_nonempty)
  show ?thesis
    using lines rest tlsub hdin by (intro matchFrom_skip [OF key]) auto
qed

lemma hexdigit_plain: "hexdigit n \<noteq> nl \<and> hexdigit n \<noteq> CHR ''$''"
proof -
  have "hexdigit n \<in> set ''0123456789abcdef''"
    unfolding hexdigit_def by (intro nth_mem) simp
  then show ?thesis by auto
qed

lemma high_byte_plain:
  assumes "0x80 \<le> n" and "n < 0x100"
  shows "char_of (n::nat) \<noteq> nl \<and> char_of n \<noteq> CHR ''$''"
  using assms by (simp add: char_of_eq_iff take_bit_eq_mod)

lemma low_byte_plain:
  assumes "0x20 \<le> n" and "n < 0x7F"
  shows "char_of (n::nat) \<noteq> nl \<and> (n \<noteq> 0x24 \<longrightarrow> char_of n \<noteq> CHR ''$'')"
  using assms by (simp add: char_of_eq_iff take_bit_eq_mod)

lemma EncodeRune_plain:
  assumes "0x80 \<le> r" and "x \<in> set (EncodeRune r)"
  shows "x \<noteq> nl \<and> x \<noteq> CHR ''$''"
proof -
  have c: "char_of (0x80 + k mod 64) \<noteq> nl \<and> char_of (0x80 + k mod 64) \<noteq> CHR ''$''" for k :: nat
    by (rule high_byte_plain) simp_all
  have l2: "char_of (0xC0 + r div 64) \<noteq> nl \<and> char_of (0xC0 + r div 64) \<noteq> CHR ''$''"
    if "r \<le> 0x7FF"
  proof (rule high_byte_plain)
    show "0x80 \<le> 0xC0 + r div 64" by simp
    from that have "r div 64 < 32" by simp
    then show "0xC0 + r div 64 < 0x100" by simp
  qed
  have l3: "char_of (0xE0 + r div 4096) \<noteq> nl \<and> char_of (0xE0 + r div 4096) \<noteq> CHR ''$''"
    if "r \<le> 0xFFFF"
  proof (rule high_byte_plain)
    show "0x80 \<le> 0xE0 + r div 4096" by simp
    from that have "r div 4096 < 16" by simp
    then show "0xE0 + r div 4096 < 0x100" by simp
  qed
  have l4: "char_of (0xF0 + r div 262144) \<noteq> nl \<and> char_of (0xF0 + r div 262144) \<noteq> CHR ''$''"
    if "r \<le> 0x10FFFF"
  proof (rule high_byte_plain)
    show "0x80 \<le> 0xF0 + r div 262144" by simp
    from that have "r div 262144 < 5" by simp
    then show "0xF0 + r div 262144 < 0x100" by simp
  qed
  from assms c [of r] c [of "r div 64"] c [of "r div 4096"] l2 l3 l4 show ?thesis
    by (auto simp: EncodeRune_def split: if_splits)
qed

lemma appendEscapedRune_plain:
  assumes "x \<in> set (appendEscapedRune u r)"
  shows "x \<noteq> nl \<and> (r \<noteq> 0x24 \<longrightarrow> x \<noteq> CHR ''$'')"
proof (cases "isPrintRune u r \<and> r \<noteq> 0x22 \<and> r \<noteq> 0x5C")
  case True
  then have x: "x \<in> set (EncodeRune r)" using assms by (simp add: appendEscapedRune_def)
  show ?thesis
  proof (cases "r < 0x80")
    case True
    with \<open>isPrintRune u r \<and> r \<noteq> 0x22 \<and> r \<noteq> 0x5C\<close> have "0x20 \<le> r" "r < 0x7F"
      by (simp_all add: isPrintRune_def)
    from low_byte_plain [OF this] x True show ?thesis by (simp add: EncodeRune_def)
  next
    case False
    then have "0x80 \<le> r" by simp
    from EncodeRune_plain [OF this x] show ?thesis by simp
  qed
next
  case False
  with assms hexdigit_plain show ?thesis
    by (auto simp: appendEscapedRune_def split: if_splits)
qed

lemma mod_window:
  fixes x :: nat
  assumes "q * n \<le> x" and "x < q * n + n"
  shows "x mod n = x - q * n"
proof -
  have "x = (x - q * n) + q * n" using assms(1) by simp
  then have "x mod n = ((x - q * n) + q * n) mod n" by simp
  also have "\<dots> = (x - q * n) mod n" by (rule mod_mult_self1)
  also have "\<dots> = x - q * n" using assms by (intro mod_less) simp
  finally show ?thesis .
qed

lemma DecodeRune_high:
  assumes "(0x80::nat) \<le> of_char c"
  shows "0x80 \<le> fst (DecodeRuneInString (c # cs))"
proof -
  define s0 :: nat where "s0 = of_char c"
  define s1 :: nat where "s1 = of_char (cs ! 0)"
  define s2 :: nat where "s2 = of_char (cs ! 1)"
  define s3 :: nat where "s3 = of_char (cs ! 2)"
  have d: "DecodeRuneInString (c # cs) =
     (if s0 < 0x80 then (s0, 1)
      else if s0 < 0xC2 \<or> 0xF4 < s0 then (RuneError, 1)
      else if length (c # cs) < (if s0 < 0xE0 then 2 else if s0 < 0xF0 then 3 else 4)
        then (RuneError, 1)
      else if s1 < (if s0 = 0xE0 then 0xA0 else if s0 = 0xF0 then 0x90 else 0x80) \<or>
              (if s0 = 0xED then 0x9F else if s0 = 0xF4 then 0x8F else 0xBF) < s1
        then (RuneError, 1)
      else if (if s0 < 0xE0 then 2 else if s0 < 0xF0 then 3 else (4::nat)) \<le> 2
        then (s0 mod 32 * 64 + s1 mod 64, 2)
      else if s2 < 0x80 \<or> 0xBF < s2 then (RuneError, 1)
      else if (if s0 < 0xE0 then 2 else if s0 < 0xF0 then 3 else (4::nat)) \<le> 3
        then (s0 mod 16 * 4096 + s1 mod 64 * 64 + s2 mod 64, 3)
      else if s3 < 0x80 \<or> 0xBF < s3 then (RuneError, 1)
      else (s0 mod 8 * 262144 + s1 mod 64 * 4096 + s2 mod 64 * 64 + s3 mod 64, 4))"
    unfolding DecodeRuneInString_def Let_def list.case
      s0_def [symmetric] s1_def [symmetric] s2_def [symmetric] s3_def [symmetric]
    by (rule refl)
  have m32: "s0 mod 32 = s0 - 192" if "\<not> s0 < 0xC2" "s0 < 0xE0"
    using that by (intro mod_window [of 6 32 s0, simplified]) simp_all
  have m16: "s0 mod 16 = s0 - 224" if "\<not> s0 < 0xE0" "s0 < 0xF0"
    using that by (intro mod_window [of 14 16 s0, simplified]) simp_all
  have m8: "s0 mod 8 = s0 - 240" if "\<not> s0 < 0xF0" "\<not> 0xF4 < s0"
    using that by (intro mod_window [of 30 8 s0, simplified]) simp_all
  have m64: "s1 mod 64 = s1 - 128" if "\<not> s1 < 0x80" "\<not> 0xBF < s1"
    using that by (intro mod_window [of 2 64 s1, simplified]) simp_all
  show ?thesis
  proof (cases "s0 < 0xC2 \<or> 0xF4 < s0")
    case True
    with assms show ?thesis by (simp add: d RuneError_def s0_def [symmetric])
  next
    case False
    note rng = this
    show ?thesis
    proof (cases "s0 < 0xE0")
      case True
      with rng assms m32 show ?thesis
        by (auto simp: d RuneError_def s0_def [symmetric] split: if_splits)
    next
      case False
      note ge3 = this
      show ?thesis
      proof (cases "s0 < 0xF0")
        case True
        with rng ge3 assms m16 m64 show ?thesis
          by (auto simp: d RuneError_def s0_def [symmetric] split: if_splits)
      next
        case False
        with rng ge3 assms m8 m64 show ?thesis
          by (auto simp: d RuneError_def s0_def [symmetric] split: if_splits)
      qed
    qed
  qed
qed

lemma quoteFrom_Cons:
  "\<exists>X k. quoteFrom u (c # cs) = X @ quoteFrom u (drop k cs) \<and>
         (\<forall>x\<in>set X. x \<noteq> nl \<and> (c \<noteq> CHR ''$'' \<longrightarrow> x \<noteq> CHR ''$''))"
proof -
  have d: "c \<noteq> CHR ''$'' \<Longrightarrow> (of_char c :: nat) \<noteq> 0x24"
  proof
    assume "c \<noteq> CHR ''$''" and "(of_char c :: nat) = 0x24"
    then have "(of_char c :: nat) = of_char (CHR ''$'')" by simp
    then have "c = CHR ''$''" by (simp only: of_char_eq_iff)
    with \<open>c \<noteq> CHR ''$''\<close> show False by simp
  qed
  obtain r w where rw: "(if (0x80::nat) \<le> of_char c then DecodeRuneInString (c # cs)
                         else (of_char c, 1)) = (r, w)"
    by (cases "if (0x80::nat) \<le> of_char c then DecodeRuneInString (c # cs) else (of_char c, 1)")
  have r: "c \<noteq> CHR ''$'' \<longrightarrow> r \<noteq> 0x24"
  proof (cases "(0x80::nat) \<le> of_char c")
    case True
    with rw DecodeRune_high [OF True, of cs] show ?thesis by simp
  next
    case False
    with rw d show ?thesis by auto
  qed
  let ?X = "if w = 1 \<and> r = RuneError then
              [CHR 0x5C, CHR ''x'', hexdigit (of_char c div 16), hexdigit (of_char c)]
            else appendEscapedRune u r"
  have "quoteFrom u (c # cs) = ?X @ quoteFrom u (drop (w - 1) cs)"
    using rw by (simp del: DecodeRuneInString_def split del: if_split)
  moreover have "\<forall>x\<in>set ?X. x \<noteq> nl \<and> (c \<noteq> CHR ''$'' \<longrightarrow> x \<noteq> CHR ''$'')"
    using r hexdigit_plain appendEscapedRune_plain [of _ u r] by (auto split: if_splits)
  ultimately show ?thesis by blast
qed

lemma quoteFrom_plain:
  "nl \<notin> set (quoteFrom u s) \<and> (CHR ''$'' \<notin> set s \<longrightarrow> CHR ''$'' \<notin> set (quoteFrom u s))"
proof (induction s rule: length_induct)
  case (1 s)
  show ?case
  proof (cases s)
    case Nil
    then show ?thesis by simp
  next
    case (Cons c cs)
    from quoteFrom_Cons [of u c cs] obtain X k
      where q: "quoteFrom u (c # cs) = X @ quoteFrom u (drop k cs)"
        and X: "\<forall>x\<in>set X. x \<noteq> nl \<and> (c \<noteq> CHR ''$'' \<longrightarrow> x \<noteq> CHR ''$'')"
      by blast
    have "length (drop k cs) < length s" using Cons by simp
    with 1 have ih: "nl \<notin> set (quoteFrom u (drop k cs)) \<and>
        (CHR ''$'' \<notin> set (drop k cs) \<longrightarrow> CHR ''$'' \<notin> set (quoteFrom u (drop k cs)))"
      by blast
    have sub: "set (drop k cs) \<subseteq> set cs" by (rule set_drop_subset)
    from q X ih sub show ?thesis unfolding Cons by auto
  qed
qed

lemma Quote_plain:
  "nl \<notin> set (Quote u s) \<and> (CHR ''$'' \<notin> set s \<longrightarrow> CHR ''$'' \<notin> set (Quote u s))"
  using quoteFrom_plain [of u s] by (simp add: Quote_def)

text \<open>
  When the pattern \<^verbatim>\<open>(?m)^version:\s*.+$\<close> has no match in the manifest, which is the
  test the program makes, \<^verbatim>\<open>UpdateChartVersion\<close> fails with "version field not found in
  Chart.yaml" and reading the manifest is its only action.  The pattern has no match in
  a manifest none of whose lines begins with \<^verbatim>\<open>version:\<close>.
\<close>

lemma UpdateChartVersion_no_match:
  assumes "os_ReadFile e (filepath_Join e dir ''Chart.yaml'') = Inr data"
      and "\<not> Match versionPattern data"
  shows "UpdateChartVersion e dir version appVersion =
           (Some ''version field not found in Chart.yaml'',
            [EvReadFile (filepath_Join e dir ''Chart.yaml'')])"
  using assms by (simp add: UpdateChartVersion_def Let_def)

lemma no_version_line_no_match:
  assumes "\<forall>l\<in>set (Split data nl). \<not> prefix ''version:'' l"
  shows "\<not> Match versionPattern data"
proof -
  have k: "nl \<notin> set ''version:''" by simp
  have r: "[] = [] \<or> hd [] = nl \<or> data = [] \<or> last data = nl" by simp
  from matchFrom_none [OF k assms r, of True]
  show ?thesis by (simp add: versionPattern_def)
qed

text \<open>
  Claim C6 says that for every manifest lacking a line that matches
  \<^verbatim>\<open>^version:\s*.+$\<close> the patcher fails with the "field not found" error and writes
  nothing.  The program does not do that when a version line without a value is followed
  by another line.  None of the three lines of the manifest below matches the pattern:
  the line \<^verbatim>\<open>version:\<close> has nothing for \<^verbatim>\<open>.+\<close> to take.  In the whole text \<^verbatim>\<open>\s*\<close> runs over
  the line feed and \<^verbatim>\<open>.+\<close> takes the following line, so the program finds a match,
  returns no error and writes the manifest back with the two lines replaced by the new
  version line.
\<close>

theorem UpdateChartVersion_version_without_value_is_matched:
  "Split (''version:'' @ [nl] @ ''name: x'' @ [nl]) nl = [''version:'', ''name: x'', []]
   \<and> Match versionPattern ''version:'' = False
   \<and> Match versionPattern ''name: x'' = False
   \<and> Match versionPattern [] = False
   \<and> UpdateChartVersion
        (exampleEnv (''version:'' @ [nl] @ ''name: x'' @ [nl])
           loginFails \<lparr>StatusCode = 200, Response.Body = []\<rparr>)
        ''chart'' ''2.0.0'' []
     = (None,
        [EvReadFile ''chart/Chart.yaml'',
         EvWriteFile ''chart/Chart.yaml'' (''version: 2.0.0'' @ [nl])])"
  by (simp add: UpdateChartVersion_def exampleEnv_def versionPattern_def matchAt_def
        isReSpace_def Let_def)

text \<open>
  What the patcher does with a manifest in which one line begins with \<^verbatim>\<open>version:\<close>, the
  value on that line is not blank, and the new version contains no dollar sign: the
  line is replaced and every other byte is written back as it was read.
\<close>

lemma UpdateChartVersion_version_only:
  assumes read: "os_ReadFile e (filepath_Join e dir ''Chart.yaml'') = Inr (pre @ ''version:'' @ val @ post)"
      and pre: "pre = [] \<or> last pre = nl"
      and post: "post = [] \<or> hd post = nl"
      and val: "nl \<notin> set val" "\<exists>c\<in>set val. \<not> isReSpace c"
      and others: "\<forall>l\<in>set (Split pre nl) \<union> set (Split post nl). \<not> prefix ''version:'' l"
      and version: "CHR ''$'' \<notin> set version"
  shows "snd (UpdateChartVersion e dir version []) =
           [EvReadFile (filepath_Join e dir ''Chart.yaml''),
            EvWriteFile (filepath_Join e dir ''Chart.yaml'') (pre @ ''version: '' @ version @ post)]"
proof -
  let ?key = "''version:''"
  let ?t1 = "''version: '' @ version"
  have k: "?key \<noteq> []" "nl \<notin> set ?key" by simp_all
  have pl: "\<forall>l\<in>set (Split pre nl). \<not> prefix ?key l"
   and ql: "\<forall>l\<in>set (Split post nl). \<not> prefix ?key l"
    using others by auto
  have d1: "CHR ''$'' \<notin> set ?t1" using version by simp
  have m: "Match versionPattern (pre @ ?key @ val @ post)"
    using matchFrom_one_line [OF k pre pl val post] by (simp add: versionPattern_def)
  have r1: "ReplaceAll (unicode e) versionPattern (pre @ ?key @ val @ post) ?t1 = pre @ ?t1 @ post"
    using replaceFrom_one_line [OF k pre pl val post ql, of "unicode e" ?t1] expand_plain [OF d1]
    by (simp add: versionPattern_def)
  show ?thesis
    using read m r1 by (simp add: UpdateChartVersion_def Let_def split: option.splits)
qed

text \<open>
  Claim C1 says that for every manifest with a line matching \<^verbatim>\<open>^version:\s*.+$\<close>,
  patching the version alone leaves every other line as it was.  The program does not
  do that when the value of the version line is blank.  The line \<^verbatim>\<open>version: \<close> matches
  the pattern; in the manifest below \<^verbatim>\<open>\s*\<close> runs over the line feed behind it and \<^verbatim>\<open>.+\<close>
  takes the following line, so the comment line is replaced together with the version
  line and is missing from the text that is written.
\<close>

theorem UpdateChartVersion_blank_version_takes_next_line:
  "Match versionPattern ''version: ''
   \<and> UpdateChartVersion
        (exampleEnv (''name: my-chart'' @ [nl] @ ''version: '' @ [nl] @
                     ''# set by the release pipeline'' @ [nl] @ ''description: Test chart'' @ [nl])
           loginFails \<lparr>StatusCode = 200, Response.Body = []\<rparr>)
        ''chart'' ''2.0.0'' []
     = (None,
        [EvReadFile ''chart/Chart.yaml'',
         EvWriteFile ''chart/Chart.yaml''
           (''name: my-chart'' @ [nl] @ ''version: 2.0.0'' @ [nl] @
            ''description: Test chart'' @ [nl])])"
  by (simp add: UpdateChartVersion_def exampleEnv_def versionPattern_def matchAt_def
        isReSpace_def Let_def)

text \<open>
  Claim C2, as stated, says that exactly one line is inserted whenever the manifest has
  a version line and no \<^verbatim>\<open>appVersion:\<close> line.  \<^verbatim>\<open>ReplaceAll\<close> replaces every match: with
  two version lines the program inserts the new line twice.
\<close>

theorem UpdateChartVersion_two_version_lines:
  "Match versionPattern (''version: 1.0.0'' @ [nl] @ ''version: 1.0.0'' @ [nl])
   \<and> \<not> Match appVersionPattern (''version: 1.0.0'' @ [nl] @ ''version: 1.0.0'' @ [nl])
   \<and> UpdateChartVersion
        (exampleEnv (''version: 1.0.0'' @ [nl] @ ''version: 1.0.0'' @ [nl])
           loginFails \<lparr>StatusCode = 200, Response.Body = []\<rparr>)
        ''chart'' ''2.0.0'' ''2.0.0''
     = (None,
        [EvReadFile ''chart/Chart.yaml'',
         EvWriteFile ''chart/Chart.yaml''
           (''version: 2.0.0'' @ [nl] @ ''appVersion: '' @ [CHR 0x22] @ ''2.0.0'' @ [CHR 0x22, nl] @
            ''version: 2.0.0'' @ [nl] @ ''appVersion: '' @ [CHR 0x22] @ ''2.0.0'' @ [CHR 0x22, nl])])"
  by (simp add: UpdateChartVersion_def exampleEnv_def versionPattern_def appVersionPattern_def
        matchAt_def isReSpace_def Let_def Quote_def appendEscapedRune_def isPrintRune_def
        EncodeRune_def RuneError_def char_of_eq_iff)

text \<open>
  \<^verbatim>\<open>ReplaceAll\<close> expands the dollar sign in its replacement text, and \<^verbatim>\<open>%q\<close> does not
  escape it: a secondary version \<^verbatim>\<open>$x\<close> names a group the pattern does not have and is
  written as the empty string.
\<close>

lemma UpdateChartVersion_dollar_is_expanded:
  "UpdateChartVersion
        (exampleEnv (''version: 1.0.0'' @ [nl])
           loginFails \<lparr>StatusCode = 200, Response.Body = []\<rparr>)
        ''chart'' ''2.0.0'' ''$x''
     = (None,
        [EvReadFile ''chart/Chart.yaml'',
         EvWriteFile ''chart/Chart.yaml''
           (''version: 2.0.0'' @ [nl] @ ''appVersion: '' @ [CHR 0x22, CHR 0x22, nl])])"
  by (simp add: UpdateChartVersion_def exampleEnv_def versionPattern_def appVersionPattern_def
        matchAt_def isReSpace_def Let_def Quote_def appendEscapedRune_def isPrintRune_def
        EncodeRune_def RuneError_def char_of_eq_iff extract_def isNameRune_def
        DecodeRuneInString_def)

text \<open>
  Claim C2, amended.  Let exactly one line of the manifest begin with \<^verbatim>\<open>version:\<close>, with
  a value on that line that is not blank, and let no line begin with \<^verbatim>\<open>appVersion:\<close>.
  Let the new version be one line, not blank and without a dollar sign, and the
  secondary version be non-empty and without a dollar sign.  Then the program writes
  the manifest back with the version line replaced by \<^verbatim>\<open>version: \<close> and the new version,
  and with exactly one new line directly behind it, \<^verbatim>\<open>appVersion: \<close> followed by the
  secondary version as \<^verbatim>\<open>%q\<close> quotes it; the text before and the text behind are
  unchanged.
\<close>

theorem UpdateChartVersion_inserts_appVersion:
  assumes read: "os_ReadFile e (filepath_Join e dir ''Chart.yaml'') = Inr (pre @ ''version:'' @ val @ post)"
      and pre: "pre = [] \<or> last pre = nl"
      and post: "post = [] \<or> hd post = nl"
      and val: "nl \<notin> set val" "\<exists>c\<in>set val. \<not> isReSpace c"
      and others: "\<forall>l\<in>set (Split pre nl) \<union> set (Split post nl).
                     \<not> prefix ''version:'' l \<and> \<not> prefix ''appVersion:'' l"
      and version: "nl \<notin> set version" "\<exists>c\<in>set version. \<not> isReSpace c" "CHR ''$'' \<notin> set version"
      and appVersion: "appVersion \<noteq> []" "CHR ''$'' \<notin> set appVersion"
  shows "snd (UpdateChartVersion e dir version appVersion) =
           [EvReadFile (filepath_Join e dir ''Chart.yaml''),
            EvWriteFile (filepath_Join e dir ''Chart.yaml'')
              (pre @ ''version: '' @ version @ [nl] @ ''appVersion: '' @ Quote (unicode e) appVersion @ post)]
       \<and> nl \<notin> set (''appVersion: '' @ Quote (unicode e) appVersion)"
proof -
  let ?key = "''version:''"
  let ?data = "pre @ ?key @ val @ post"
  let ?t1 = "''version: '' @ version"
  let ?t2 = "''version: '' @ version @ [nl] @ ''appVersion: '' @ Quote (unicode e) appVersion"
  let ?data1 = "pre @ ?key @ (CHR '' '' # version) @ post"
  have k: "?key \<noteq> []" "nl \<notin> set ?key" by simp_all
  have pl: "\<forall>l\<in>set (Split pre nl). \<not> prefix ?key l"
   and ql: "\<forall>l\<in>set (Split post nl). \<not> prefix ?key l"
   and pa: "\<forall>l\<in>set (Split pre nl). \<not> prefix ''appVersion:'' l"
   and qa: "\<forall>l\<in>set (Split post nl). \<not> prefix ''appVersion:'' l"
    using others by auto
  have q: "CHR ''$'' \<notin> set (Quote (unicode e) appVersion)" and qn: "nl \<notin> set (Quote (unicode e) appVersion)"
    using Quote_plain [of "unicode e" appVersion] appVersion(2) by auto
  have d1: "CHR ''$'' \<notin> set ?t1" using version(3) by simp
  have d2: "CHR ''$'' \<notin> set ?t2" using version(3) q by simp
  have m: "Match versionPattern ?data"
    using matchFrom_one_line [OF k pre pl val post] by (simp add: versionPattern_def)
  have r1: "ReplaceAll (unicode e) versionPattern ?data ?t1 = ?data1"
    using replaceFrom_one_line [OF k pre pl val post ql, of "unicode e" ?t1] expand_plain [OF d1]
    by (simp add: versionPattern_def)
  have v': "nl \<notin> set (CHR '' '' # version)" "\<exists>c\<in>set (CHR '' '' # version). \<not> isReSpace c"
    using version(1,2) by auto
  have r2: "ReplaceAll (unicode e) versionPattern ?data1 ?t2 = pre @ ?t2 @ post"
    using replaceFrom_one_line [OF k pre pl v' post ql, of "unicode e" ?t2] expand_plain [OF d2]
    by (simp add: versionPattern_def)
  have na: "\<not> Match appVersionPattern ?data1"
  proof -
    let ?ak = "''appVersion:''"
    let ?line = "?key @ (CHR '' '' # version)"
    have ak: "nl \<notin> set ?ak" by simp
    have a: "matchFrom ?ak True (pre @ (?line @ post)) =
               matchFrom ?ak (if pre = [] then True else last pre = nl) (?line @ post)"
      using pa pre by (intro matchFrom_none [OF ak]) auto
    have b: "(if pre = [] then True else last pre = nl) = True" using pre by auto
    have "nl \<notin> set ?line" using version(1) by simp
    then have one: "Split ?line nl = [?line]" by (rule Split_no_sep)
    have h1: "\<forall>l\<in>set (Split ?line nl). \<not> prefix ?ak l" unfolding one by simp
    have h2: "post = [] \<or> hd post = nl \<or> ?line = [] \<or> last ?line = nl" using post by blast
    have c: "matchFrom ?ak True (?line @ post) =
               matchFrom ?ak (if ?line = [] then True else last ?line = nl) post"
      by (rule matchFrom_none [OF ak h1 h2])
    have d: "matchFrom ?ak bol (post @ []) =
               matchFrom ?ak (if post = [] then bol else last post = nl) []" for bol
      using qa by (intro matchFrom_none [OF ak]) auto
    from a b c d show ?thesis by (simp add: appVersionPattern_def)
  qed
  show ?thesis
    using read m r1 r2 na appVersion(1) qn
    by (simp add: UpdateChartVersion_def Let_def split: option.splits)
qed

theorem UpdateChartVersion_inserts_appVersion_witness:
  "snd (UpdateChartVersion
          (exampleEnv (''apiVersion: v2'' @ [nl] @ ''name: my-chart'' @ [nl] @ ''version: 1.0.0'' @ [nl] @
                       ''description: Test chart'' @ [nl])
             loginFails \<lparr>StatusCode = 200, Response.Body = []\<rparr>)
          ''chart'' ''2.0.0'' (''2.0.0-b'' @ [CHR 0xC3, CHR 0xA9] @ ''ta''))
     = [EvReadFile ''chart/Chart.yaml'',
        EvWriteFile ''chart/Chart.yaml''
          (''apiVersion: v2'' @ [nl] @ ''name: my-chart'' @ [nl] @ ''version: 2.0.0'' @ [nl] @
           ''appVersion: '' @ [CHR 0x22] @ ''2.0.0-b'' @ [CHR 0xC3, CHR 0xA9] @ ''ta'' @ [CHR 0x22, nl] @
           ''description: Test chart'' @ [nl])]"
proof -
  let ?pre = "''apiVersion: v2'' @ [nl] @ ''name: my-chart'' @ [nl]"
  let ?val = "'' 1.0.0''"
  let ?post = "[nl] @ ''description: Test chart'' @ [nl]"
  let ?app = "''2.0.0-b'' @ [CHR 0xC3, CHR 0xA9] @ ''ta''"
  let ?e = "exampleEnv (?pre @ ''version:'' @ ?val @ ?post) loginFails
              \<lparr>StatusCode = 200, Response.Body = []\<rparr>"
  have read: "os_ReadFile ?e (filepath_Join ?e ''chart'' ''Chart.yaml'') =
                Inr (?pre @ ''version:'' @ ?val @ ?post)"
    by (simp add: exampleEnv_def)
  have pre: "?pre = [] \<or> last ?pre = nl" and post: "?post = [] \<or> hd ?post = nl" by simp_all
  have val: "nl \<notin> set ?val" "\<exists>c\<in>set ?val. \<not> isReSpace c" by (simp_all add: isReSpace_def)
  have others: "\<forall>l\<in>set (Split ?pre nl) \<union> set (Split ?post nl).
                  \<not> prefix ''version:'' l \<and> \<not> prefix ''appVersion:'' l"
    by simp
  have version: "nl \<notin> set ''2.0.0''" "\<exists>c\<in>set ''2.0.0''. \<not> isReSpace c" "CHR ''$'' \<notin> set ''2.0.0''"
    by (simp_all add: isReSpace_def)
  have app: "?app \<noteq> []" "CHR ''$'' \<notin> set ?app"
    by simp_all
  have q: "Quote exampleUnicode ?app = [CHR 0x22] @ ?app @ [CHR 0x22]"
    by (simp add: exampleUnicode_def Quote_def appendEscapedRune_def
          isPrintRune_def EncodeRune_def DecodeRuneInString_def RuneError_def Let_def
          char_of_eq_iff)
  from UpdateChartVersion_inserts_appVersion [OF read pre post val others version app]
  show ?thesis by (simp add: q [simplified] exampleEnv_def)
qed

end
